theory Spec2Isabelle
  imports Complex_Main
begin

section \<open>Values shared by the storage helpers and the transcription routes\<close>

text \<open>
  A value thrown in JavaScript is either an \<open>Error\<close> object, which carries a message
  and the stack trace captured when it was constructed, or any other value. The routes
  distinguish the two with \<open>error instanceof Error\<close>.
\<close>

datatype thrown = ErrorObj (message: string) (stack: string) | NonError string

type_synonym bytes = "nat list"

datatype log_level = Debug | Info | Warn | Err

text \<open>JSON values as the provider's client library returns them.\<close>

datatype json =
    JNull
  | JBool bool
  | JNum rat
  | JStr string
  | JArr "json list"
  | JObj "(string \<times> json) list"

text \<open>
  The normalized record (\<open>@/types/deliberation\<close>). The routes read only
  \<open>statistics.total_speakers\<close> and \<open>statistics.duration_seconds\<close> of it.
\<close>

record utterance =
  speaker :: string
  start_time :: rat
  end_time :: rat
  text_of :: string
  confidence :: rat

record speaker_info =
  total_time :: rat
  utterance_indices :: "nat list"

record ont_metadata =
  meta_filename :: string
  meta_language :: string

record ont_statistics =
  total_speakers :: nat
  stats_duration_seconds :: rat
  word_count :: nat

record DeliberationOntology =
  metadata :: ont_metadata
  speakers :: "(string \<times> speaker_info) list"
  utterances :: "utterance list"
  statistics :: ont_statistics

text \<open>Rounds (\<open>@/types/round\<close>) and the partial updates handed to \<open>updateRound\<close>.\<close>

datatype RoundStatus = CREATED | RECORDING | PROCESSING | COMPLETED | ERROR

record round =
  round_id :: string
  name :: string
  description :: "string option"
  language :: "string option"
  status :: RoundStatus
  audio_file :: "string option"
  transcription_file :: "string option"
  duration_seconds :: "rat option"
  speaker_count :: "nat option"
  created_at :: string

record round_patch =
  set_status :: "RoundStatus option"
  set_audio_file :: "string option"
  set_transcription_file :: "string option"
  set_duration_seconds :: "rat option"
  set_speaker_count :: "nat option"

definition no_patch :: round_patch where
  "no_patch = \<lparr> set_status = None, set_audio_file = None, set_transcription_file = None,
                 set_duration_seconds = None, set_speaker_count = None \<rparr>"

text \<open>The options object of \<open>deepgram.listen.prerecorded.transcribeFile\<close>.\<close>

record dg_options =
  model :: string
  dg_language :: string
  diarize :: bool
  punctuate :: bool
  paragraphs :: bool
  utterances_opt :: bool
  smart_format :: bool

text \<open>
  The \<open>error\<close> member of the client library's reply: \<open>error.message\<close> may be
  missing, \<open>String(error)\<close> always exists.
\<close>

record dg_error =
  dg_message :: "string option"
  dg_string :: string

text \<open>
  The awaited call rejects with a thrown value, or resolves to the pair
  \<open>{ result, error }\<close> (a missing member is \<open>None\<close>), or never settles: the
  route passes no timeout or abort signal to it.
\<close>

datatype provider_outcome =
    Rejects thrown
  | Resolves "json option" "dg_error option"
  | NeverSettles

section \<open>The world the code acts on\<close>

datatype fs_entry = Dir | File bytes

datatype fs_op = Mkdir string | WriteFile string bytes | ReadFile string

datatype store_op = GetRound string | UpdateRound string round_patch

text \<open>Every call that leaves the process is recorded, in order, when it is issued.\<close>

datatype effect =
    FsCall fs_op
  | StoreCall store_op
  | ProviderCall bytes dg_options
  | BuilderCall json string "string option"

record world =
  entries :: "string \<rightharpoonup> fs_entry"
  rounds :: "string \<rightharpoonup> round"
  effects :: "effect list"
  logs :: "(log_level \<times> string) list"

text \<open>
  What the code cannot control: the process environment, Node's \<open>path\<close> module, the
  failures of the file system and of the round store, the provider, the stack trace the
  runtime attaches to a new \<open>Error\<close>, and \<open>JSON.stringify\<close> followed by the UTF-8
  encoding of \<open>fs.writeFile\<close>. \<open>createDeliberationOntology\<close> is imported from
  \<open>@/lib/deliberation/ontology\<close>; the routes are modelled for any such builder.
\<close>

record env =
  cwd :: string
  path_join :: "string list \<Rightarrow> string"
  path_basename :: "string \<Rightarrow> string"
  DEEPGRAM_API_KEY :: "string option"
  fs_fails :: "fs_op \<Rightarrow> bool"
  fs_error :: "fs_op \<Rightarrow> thrown"
  store_fails :: "store_op \<Rightarrow> bool"
  store_error :: "store_op \<Rightarrow> thrown"
  transcribeFile :: "bytes \<Rightarrow> dg_options \<Rightarrow> provider_outcome"
  createDeliberationOntology :: "json \<Rightarrow> string \<Rightarrow> string option \<Rightarrow> thrown + DeliberationOntology"
  stack_trace :: "string \<Rightarrow> string"
  stringify_json :: "json \<Rightarrow> bytes"
  stringify_ontology :: "DeliberationOntology \<Rightarrow> bytes"

text \<open>
  An asynchronous function is a state transformer that returns a value, throws, or stays
  suspended for ever at an \<open>await\<close> whose promise never settles. What it did to the
  world before stays done. A suspended function runs no further statement, so no
  \<open>catch\<close> block sees the suspension.
\<close>

datatype abrupt = Throws thrown | Unsettled

type_synonym 'a io = "world \<Rightarrow> (abrupt + 'a) \<times> world"

definition io_return :: "'a \<Rightarrow> 'a io" where
  "io_return a w = (Inr a, w)"

definition io_throw :: "thrown \<Rightarrow> 'a io" where
  "io_throw e w = (Inl (Throws e), w)"

text \<open>Awaiting a call that has resolved or rejected.\<close>

definition io_settled :: "thrown + 'a \<Rightarrow> 'a io" where
  "io_settled r w = (case r of Inl e \<Rightarrow> (Inl (Throws e), w) | Inr a \<Rightarrow> (Inr a, w))"

definition io_bind :: "'a io \<Rightarrow> ('a \<Rightarrow> 'b io) \<Rightarrow> 'b io" where
  "io_bind m f w = (case m w of (Inl e, w') \<Rightarrow> (Inl e, w') | (Inr a, w') \<Rightarrow> f a w')"

definition io_then :: "unit io \<Rightarrow> 'b io \<Rightarrow> 'b io" where
  "io_then m k = io_bind m (\<lambda>_. k)"

text \<open>\<open>try { m } catch (e) { h e }\<close>\<close>

definition io_catch :: "'a io \<Rightarrow> (thrown \<Rightarrow> 'a io) \<Rightarrow> 'a io" where
  "io_catch m h w =
     (case m w of
        (Inl (Throws e), w') \<Rightarrow> h e w'
      | (Inl Unsettled, w') \<Rightarrow> (Inl Unsettled, w')
      | (Inr a, w') \<Rightarrow> (Inr a, w'))"

definition log_msg :: "log_level \<Rightarrow> string \<Rightarrow> unit io" where
  "log_msg lvl m w = (Inr (), w\<lparr>logs := logs w @ [(lvl, m)]\<rparr>)"

definition record_effect :: "effect \<Rightarrow> unit io" where
  "record_effect x w = (Inr (), w\<lparr>effects := effects w @ [x]\<rparr>)"

definition new_Error :: "env \<Rightarrow> string \<Rightarrow> thrown" where
  "new_Error env m = ErrorObj m (stack_trace env m)"

subsection \<open>\<open>fs/promises\<close>\<close>

text \<open>\<open>fs.mkdir(p, { recursive: true })\<close> leaves an existing directory alone.\<close>

definition fs_mkdir :: "env \<Rightarrow> string \<Rightarrow> unit io" where
  "fs_mkdir env p =
     io_then (record_effect (FsCall (Mkdir p)))
       (\<lambda>w. if fs_fails env (Mkdir p) then (Inl (Throws (fs_error env (Mkdir p))), w)
            else case entries w p of
                   Some (File b) \<Rightarrow> (Inl (Throws (fs_error env (Mkdir p))), w)
                 | _ \<Rightarrow> (Inr (), w\<lparr>entries := (entries w)(p \<mapsto> Dir)\<rparr>))"

definition fs_writeFile :: "env \<Rightarrow> string \<Rightarrow> bytes \<Rightarrow> unit io" where
  "fs_writeFile env p b =
     io_then (record_effect (FsCall (WriteFile p b)))
       (\<lambda>w. if fs_fails env (WriteFile p b) then (Inl (Throws (fs_error env (WriteFile p b))), w)
            else case entries w p of
                   Some Dir \<Rightarrow> (Inl (Throws (fs_error env (WriteFile p b))), w)
                 | _ \<Rightarrow> (Inr (), w\<lparr>entries := (entries w)(p \<mapsto> File b)\<rparr>))"

definition fs_readFile :: "env \<Rightarrow> string \<Rightarrow> bytes io" where
  "fs_readFile env p =
     io_then (record_effect (FsCall (ReadFile p)))
       (\<lambda>w. if fs_fails env (ReadFile p) then (Inl (Throws (fs_error env (ReadFile p))), w)
            else case entries w p of
                   Some (File b) \<Rightarrow> (Inr b, w)
                 | _ \<Rightarrow> (Inl (Throws (fs_error env (ReadFile p))), w))"

text \<open>\<open>fs.access(p)\<close> resolves exactly when something is stored under \<open>p\<close>.\<close>

definition fs_access :: "world \<Rightarrow> string \<Rightarrow> bool" where
  "fs_access w p = (entries w p \<noteq> None)"

section \<open>\<open>src/lib/storage/files.ts\<close>\<close>

definition DATA_DIR :: "env \<Rightarrow> string" where
  "DATA_DIR env = path_join env [cwd env, ''data'']"

definition TRANSCRIPTIONS_DIR :: "env \<Rightarrow> string" where
  "TRANSCRIPTIONS_DIR env = path_join env [DATA_DIR env, ''transcriptions'']"

definition AUDIO_DIR :: "env \<Rightarrow> string" where
  "AUDIO_DIR env = path_join env [cwd env, ''public'', ''audio'']"

definition ensureDirectories :: "env \<Rightarrow> unit io" where
  "ensureDirectories env =
     io_then (fs_mkdir env (DATA_DIR env))
    (io_then (fs_mkdir env (TRANSCRIPTIONS_DIR env))
             (fs_mkdir env (AUDIO_DIR env)))"

definition saveTranscription ::
  "env \<Rightarrow> string \<Rightarrow> json \<Rightarrow> DeliberationOntology \<Rightarrow> (string \<times> string) io" where
  "saveTranscription env roundId rawResponse deliberationData =
     io_then (log_msg Info ''Saving transcription files'')
       (io_catch
          (io_then (ensureDirectories env)
             (let rawPath = path_join env [TRANSCRIPTIONS_DIR env, roundId @ ''_raw.json''];
                  deliberationPath =
                    path_join env [TRANSCRIPTIONS_DIR env, roundId @ ''_deliberation.json'']
              in io_then (fs_writeFile env rawPath (stringify_json env rawResponse))
                (io_then (fs_writeFile env deliberationPath
                            (stringify_ontology env deliberationData))
                (io_then (log_msg Info ''Transcription files saved successfully'')
                         (io_return (rawPath, deliberationPath))))))
          (\<lambda>error. io_then (log_msg Err ''Failed to save transcription files'')
                           (io_throw error)))"

definition saveAudioFile :: "env \<Rightarrow> string \<Rightarrow> bytes \<Rightarrow> string \<Rightarrow> string io" where
  "saveAudioFile env roundId buffer extension =
     io_then (log_msg Info ''Saving audio file'')
       (io_catch
          (io_then (ensureDirectories env)
             (let filename = roundId @ ''.'' @ extension;
                  filePath = path_join env [AUDIO_DIR env, filename]
              in io_then (fs_writeFile env filePath buffer)
                (io_then (log_msg Info ''Audio file saved successfully'')
                         (io_return (''/audio/'' @ filename)))))
          (\<lambda>error. io_then (log_msg Err ''Failed to save audio file'')
                           (io_throw error)))"

definition audio_extensions :: "string list" where
  "audio_extensions = [''webm'', ''mp3'', ''wav'', ''ogg'']"

text \<open>The \<open>for (const ext of extensions)\<close> loop of \<open>audioFileExists\<close>.\<close>

fun audioFileExists_loop :: "env \<Rightarrow> string \<Rightarrow> string list \<Rightarrow> world \<Rightarrow> string option" where
  "audioFileExists_loop env roundId [] w = None"
| "audioFileExists_loop env roundId (ext # exts) w =
     (let filePath = path_join env [AUDIO_DIR env, roundId @ ''.'' @ ext]
      in if fs_access w filePath then Some (''/audio/'' @ roundId @ ''.'' @ ext)
         else audioFileExists_loop env roundId exts w)"

definition audioFileExists :: "env \<Rightarrow> string \<Rightarrow> world \<Rightarrow> string option" where
  "audioFileExists env roundId w = audioFileExists_loop env roundId audio_extensions w"

text \<open>Whether the audio directory holds an entry for the round under the extension.\<close>

definition audio_stored :: "env \<Rightarrow> world \<Rightarrow> string \<Rightarrow> string \<Rightarrow> bool" where
  "audio_stored env w roundId ext =
     fs_access w (path_join env [AUDIO_DIR env, roundId @ ''.'' @ ext])"

section \<open>The round store (\<open>@/lib/storage/rounds\<close>)\<close>

definition apply_patch :: "round_patch \<Rightarrow> round \<Rightarrow> round" where
  "apply_patch p r =
     r\<lparr> status := (case set_status p of Some s \<Rightarrow> s | None \<Rightarrow> status r),
        audio_file := (case set_audio_file p of Some a \<Rightarrow> Some a | None \<Rightarrow> audio_file r),
        transcription_file :=
          (case set_transcription_file p of Some t \<Rightarrow> Some t | None \<Rightarrow> transcription_file r),
        duration_seconds :=
          (case set_duration_seconds p of Some d \<Rightarrow> Some d | None \<Rightarrow> duration_seconds r),
        speaker_count :=
          (case set_speaker_count p of Some c \<Rightarrow> Some c | None \<Rightarrow> speaker_count r) \<rparr>"

text \<open>
  Modelled from the spec: \<open>getRound\<close>, imported from \<open>@/lib/storage/rounds\<close>, is the
  persistence collaborator's \<open>readRound(id) \<rightarrow> Round | absent\<close>. The call may fail.
\<close>

definition getRound :: "env \<Rightarrow> string \<Rightarrow> round option io" where
  "getRound env roundId =
     io_then (record_effect (StoreCall (GetRound roundId)))
       (\<lambda>w. if store_fails env (GetRound roundId)
            then (Inl (Throws (store_error env (GetRound roundId))), w)
            else (Inr (rounds w roundId), w))"

text \<open>
  Modelled from the spec: \<open>updateRound\<close>, imported from \<open>@/lib/storage/rounds\<close>, is the
  persistence collaborator's \<open>writeRound(id, patch) \<rightarrow> Round\<close>: it overwrites the fields
  the patch names and returns the round. It fails when the store fails or when no round
  is stored under the id; a failed call leaves the last recorded round as it was.
\<close>

definition updateRound :: "env \<Rightarrow> string \<Rightarrow> round_patch \<Rightarrow> round io" where
  "updateRound env roundId p =
     io_then (record_effect (StoreCall (UpdateRound roundId p)))
       (\<lambda>w. if store_fails env (UpdateRound roundId p)
            then (Inl (Throws (store_error env (UpdateRound roundId p))), w)
            else case rounds w roundId of
                   None \<Rightarrow> (Inl (Throws (store_error env (UpdateRound roundId p))), w)
                 | Some r \<Rightarrow>
                     (Inr (apply_patch p r),
                      w\<lparr>rounds := (rounds w)(roundId \<mapsto> apply_patch p r)\<rparr>))"

section \<open>What the two transcription routes share\<close>

text \<open>\<open>NextResponse.json(body, { status })\<close>; a member that is undefined is left out.\<close>

datatype response =
    JsonError (http_status: nat) (error_text: string) (details: "string option")
  | JsonSuccess string DeliberationOntology string

text \<open>JavaScript truthiness of the values the routes test.\<close>

definition truthy_string :: "string option \<Rightarrow> bool" where
  "truthy_string s = (case s of None \<Rightarrow> False | Some x \<Rightarrow> x \<noteq> [])"

fun truthy :: "json \<Rightarrow> bool" where
  "truthy JNull = False"
| "truthy (JBool b) = b"
| "truthy (JNum n) = (n \<noteq> 0)"
| "truthy (JStr s) = (s \<noteq> [])"
| "truthy (JArr xs) = True"
| "truthy (JObj kvs) = True"

text \<open>\<open>value.results\<close>: only an object has own members.\<close>

fun member_results :: "json \<Rightarrow> json option" where
  "member_results (JObj kvs) = map_of kvs ''results''"
| "member_results j = None"

definition has_results :: "json \<Rightarrow> bool" where
  "has_results j = (case member_results j of None \<Rightarrow> False | Some r \<Rightarrow> truthy r)"

text \<open>\<open>error.message || String(error)\<close>\<close>

definition dg_error_text :: "dg_error \<Rightarrow> string" where
  "dg_error_text e =
     (case dg_message e of
        None \<Rightarrow> dg_string e
      | Some m \<Rightarrow> if m = [] then dg_string e else m)"

definition deepgram_options :: "string \<Rightarrow> dg_options" where
  "deepgram_options lang =
     \<lparr> model = ''nova-2'', dg_language = lang, diarize = True, punctuate = True,
       paragraphs = True, utterances_opt = True, smart_format = True \<rparr>"

definition call_transcribeFile :: "env \<Rightarrow> bytes \<Rightarrow> dg_options \<Rightarrow> (json option \<times> dg_error option) io" where
  "call_transcribeFile env buffer opts =
     io_then (record_effect (ProviderCall buffer opts))
       (\<lambda>w. case transcribeFile env buffer opts of
               Rejects e \<Rightarrow> (Inl (Throws e), w)
             | Resolves result error \<Rightarrow> (Inr (result, error), w)
             | NeverSettles \<Rightarrow> (Inl Unsettled, w))"

definition call_createDeliberationOntology ::
  "env \<Rightarrow> json \<Rightarrow> string \<Rightarrow> string option \<Rightarrow> DeliberationOntology io" where
  "call_createDeliberationOntology env raw filename lang =
     io_then (record_effect (BuilderCall raw filename lang))
       (io_settled (createDeliberationOntology env raw filename lang))"

text \<open>
  The provider call and the checks on its reply, written alike in both routes (lines
  87 to 132 of the round route, 73 to 128 of the generic one, which logs one more debug
  line): the call, \<open>if (error) throw\<close>, \<open>if (!result) throw\<close>,
  \<open>JSON.parse(JSON.stringify(result))\<close> (the identity on a JSON value) and the check
  of \<open>responseDict.results\<close>. It returns \<open>responseDict\<close>.
\<close>

definition transcribe_checked :: "env \<Rightarrow> bytes \<Rightarrow> string \<Rightarrow> bool \<Rightarrow> json io" where
  "transcribe_checked env buffer lang extra_debug =
     io_bind (call_transcribeFile env buffer (deepgram_options lang)) (\<lambda>(result, error).
       case error of
         Some err \<Rightarrow>
           io_then (log_msg Err ''Deepgram API error'')
             (io_throw (new_Error env (''Deepgram API error: '' @ dg_error_text err)))
       | None \<Rightarrow>
          (case result of
             None \<Rightarrow>
               io_then (log_msg Err ''Deepgram returned null result with no error'')
                 (io_throw (new_Error env ''Deepgram API returned null result''))
           | Some res \<Rightarrow>
               if \<not> truthy res then
                 io_then (log_msg Err ''Deepgram returned null result with no error'')
                   (io_throw (new_Error env ''Deepgram API returned null result''))
               else
                 io_then (log_msg Debug ''Raw result from Deepgram'')
                (io_then (log_msg Info ''Deepgram transcription completed'')
                (let responseDict = res in
                 io_then (if extra_debug
                          then log_msg Debug ''Deepgram response after serialization''
                          else io_return ())
                   (if \<not> truthy responseDict \<or> \<not> has_results responseDict then
                      io_then (log_msg Err ''Invalid Deepgram response'')
                        (io_throw (new_Error env ''Invalid response from Deepgram API''))
                    else io_return responseDict)))))"

text \<open>The body of the 500 response built in both \<open>catch\<close> blocks.\<close>

definition failure_response :: "thrown \<Rightarrow> response" where
  "failure_response error =
     JsonError 500
       (case error of ErrorObj m s \<Rightarrow> m | NonError v \<Rightarrow> ''Transcription failed'')
       (case error of ErrorObj m s \<Rightarrow> Some s | NonError v \<Rightarrow> None)"

definition status_patch :: "RoundStatus \<Rightarrow> round_patch" where
  "status_patch s = no_patch\<lparr>set_status := Some s\<rparr>"

text \<open>
  \<open>if (!apiKey) throw\<close>. \<open>createClient(apiKey)\<close> builds the client in memory and
  has no counterpart here.
\<close>

definition require_api_key :: "env \<Rightarrow> unit io" where
  "require_api_key env =
     (if truthy_string (DEEPGRAM_API_KEY env) then io_return ()
      else io_throw (new_Error env ''DEEPGRAM_API_KEY not configured in environment variables''))"

section \<open>\<open>src/app/api/rounds/[roundId]/transcribe/route.ts\<close>\<close>

definition maxDuration :: nat where
  "maxDuration = 300"

text \<open>\<open>round.language || 'en'\<close>\<close>

definition round_language :: "round \<Rightarrow> string" where
  "round_language r = (if truthy_string (language r) then the (language r) else ''en'')"

definition completed_patch_round :: "string \<Rightarrow> string \<Rightarrow> DeliberationOntology \<Rightarrow> round_patch" where
  "completed_patch_round roundId audioPath deliberationData =
     \<lparr> set_status = Some COMPLETED,
       set_audio_file = Some audioPath,
       set_transcription_file = Some (roundId @ ''_deliberation.json''),
       set_duration_seconds = Some (stats_duration_seconds (statistics deliberationData)),
       set_speaker_count = Some (total_speakers (statistics deliberationData)) \<rparr>"

text \<open>
  From the status update to the success response (lines 61 to 160). The extension and
  the MIME type derived from it are only logged.
\<close>

definition round_POST_process :: "env \<Rightarrow> string \<Rightarrow> round \<Rightarrow> string \<Rightarrow> response io" where
  "round_POST_process env roundId rnd audioPath =
     io_bind (updateRound env roundId (status_patch PROCESSING)) (\<lambda>_.
       let lang = round_language rnd;
           fullPath = path_join env [cwd env, ''public'', audioPath]
       in io_bind (fs_readFile env fullPath) (\<lambda>buffer.
          io_then (log_msg Info ''Starting Deepgram transcription'')
         (io_then (require_api_key env)
         (io_bind (transcribe_checked env buffer lang False) (\<lambda>responseDict.
            let filename = path_basename env audioPath in
            io_bind (call_createDeliberationOntology env responseDict filename (Some lang))
              (\<lambda>deliberationData.
            io_bind (saveTranscription env roundId responseDict deliberationData) (\<lambda>_.
            io_then (log_msg Info ''Transcription files saved successfully'')
           (io_bind (updateRound env roundId
                       (completed_patch_round roundId audioPath deliberationData)) (\<lambda>_.
              io_return (JsonSuccess roundId deliberationData
                           ''Transcription completed successfully''))))))))))"

text \<open>The audio check and what follows it (lines 49 to 160).\<close>

definition round_POST_found :: "env \<Rightarrow> string \<Rightarrow> round \<Rightarrow> response io" where
  "round_POST_found env roundId rnd w =
     (case audioFileExists env roundId w of
        None \<Rightarrow>
          io_then (log_msg Warn ''Audio file not found for round'')
            (io_return
               (JsonError 404 ''Audio file not found. Recording may not have completed yet.''
                  None)) w
      | Some audioPath \<Rightarrow>
          io_then (log_msg Info ''Found audio file'')
            (round_POST_process env roundId rnd audioPath) w)"

text \<open>The \<open>try\<close> block (lines 38 to 160).\<close>

definition round_POST_try :: "env \<Rightarrow> string \<Rightarrow> response io" where
  "round_POST_try env roundId =
     io_bind (getRound env roundId) (\<lambda>found.
       case found of
         None \<Rightarrow>
           io_then (log_msg Warn ''Round not found'')
             (io_return (JsonError 404 ''Round not found'' None))
       | Some rnd \<Rightarrow> round_POST_found env roundId rnd)"

text \<open>The \<open>catch\<close> block (lines 162 to 180).\<close>

definition round_POST_catch :: "env \<Rightarrow> string \<Rightarrow> thrown \<Rightarrow> response io" where
  "round_POST_catch env roundId error =
     io_then (log_msg Err ''Transcription error occurred'')
    (io_then
       (io_catch
          (io_bind (updateRound env roundId (status_patch ERROR))
             (\<lambda>_. log_msg Info ''Updated round status to ERROR''))
          (\<lambda>updateError. log_msg Warn ''Failed to update round status''))
       (io_return (failure_response error)))"

definition round_POST :: "env \<Rightarrow> string \<Rightarrow> response io" where
  "round_POST env roundId = io_catch (round_POST_try env roundId) (round_POST_catch env roundId)"

section \<open>\<open>src/app/api/transcribe/route.ts\<close>\<close>

text \<open>
  The multipart form of the request, with the types the route casts its fields to.
  \<open>request.formData()\<close> may reject, and so may \<open>request.clone().formData()\<close>, which
  the \<open>catch\<close> block calls after the \<open>try\<close> block has read the body. Under the
  Fetch standard \<open>clone()\<close> throws a \<open>TypeError\<close> once the body of a request has been
  read; what the second read gives is left to the request here.
\<close>

record uploaded_file =
  file_name :: string
  file_type :: string
  file_bytes :: bytes

record form_data =
  form_audio :: "uploaded_file option"
  form_roundId :: "string option"
  form_filename :: "string option"

record request =
  formData :: "thrown + form_data"
  clone_formData :: "thrown + form_data"

definition read_form :: "thrown + form_data \<Rightarrow> form_data io" where
  "read_form r = io_settled r"

text \<open>\<open>formData.get('filename') as string || audioFile?.name || 'audio'\<close>\<close>

definition form_filename_or_default :: "form_data \<Rightarrow> string" where
  "form_filename_or_default fd =
     (if truthy_string (form_filename fd) then the (form_filename fd)
      else if truthy_string (map_option file_name (form_audio fd))
           then file_name (the (form_audio fd))
      else ''audio'')"

definition completed_patch_generic :: "string \<Rightarrow> DeliberationOntology \<Rightarrow> round_patch" where
  "completed_patch_generic roundId deliberationData =
     \<lparr> set_status = Some COMPLETED,
       set_audio_file = None,
       set_transcription_file = Some (roundId @ ''_deliberation.json''),
       set_duration_seconds = Some (stats_duration_seconds (statistics deliberationData)),
       set_speaker_count = Some (total_speakers (statistics deliberationData)) \<rparr>"

text \<open>From the status update to the success response (lines 50 to 154).\<close>

definition generic_POST_process :: "env \<Rightarrow> string \<Rightarrow> uploaded_file \<Rightarrow> string \<Rightarrow> response io" where
  "generic_POST_process env roundId audioFile filename =
     io_bind (updateRound env roundId (status_patch PROCESSING)) (\<lambda>_.
     io_then (require_api_key env)
       (let buffer = file_bytes audioFile in
        io_then (log_msg Info ''Starting Deepgram transcription'')
       (io_bind (transcribe_checked env buffer ''en'' True) (\<lambda>responseDict.
        io_bind (call_createDeliberationOntology env responseDict filename None)
          (\<lambda>deliberationData.
        io_bind (saveTranscription env roundId responseDict deliberationData) (\<lambda>_.
        io_then (log_msg Info ''Transcription files saved successfully'')
       (io_bind (updateRound env roundId (completed_patch_generic roundId deliberationData))
          (\<lambda>_. io_return (JsonSuccess roundId deliberationData
                            ''Transcription completed successfully'')))))))))"

text \<open>The \<open>try\<close> block (lines 25 to 154).\<close>

definition generic_POST_try :: "env \<Rightarrow> request \<Rightarrow> response io" where
  "generic_POST_try env req =
     io_bind (read_form (formData req)) (\<lambda>fd.
       case form_audio fd of
         None \<Rightarrow>
           io_then (log_msg Warn ''No audio file provided in request'')
             (io_return (JsonError 400 ''No audio file provided'' None))
       | Some audioFile \<Rightarrow>
           if \<not> truthy_string (form_roundId fd) then
             io_then (log_msg Warn ''No round ID provided in request'')
               (io_return (JsonError 400 ''Round ID is required'' None))
           else generic_POST_process env (the (form_roundId fd)) audioFile
                  (form_filename_or_default fd))"

text \<open>The \<open>catch\<close> block (lines 156 to 178).\<close>

definition generic_POST_catch :: "env \<Rightarrow> request \<Rightarrow> thrown \<Rightarrow> response io" where
  "generic_POST_catch env req error =
     io_then (log_msg Err ''Transcription error occurred'')
    (io_then
       (io_catch
          (io_bind (read_form (clone_formData req)) (\<lambda>fd.
             if truthy_string (form_roundId fd) then
               io_bind (updateRound env (the (form_roundId fd)) (status_patch ERROR))
                 (\<lambda>_. log_msg Info ''Updated round status to ERROR'')
             else io_return ()))
          (\<lambda>updateError. log_msg Warn ''Failed to update round status''))
       (io_return (failure_response error)))"

definition generic_POST :: "env \<Rightarrow> request \<Rightarrow> response io" where
  "generic_POST env req = io_catch (generic_POST_try env req) (generic_POST_catch env req)"

text \<open>The calls a run has issued, oldest first.\<close>

definition issued :: "world \<Rightarrow> world \<Rightarrow> effect list" where
  "issued w w' = drop (length (effects w)) (effects w')"

section \<open>Vocabulary for the statements\<close>

definition rawPath :: "env \<Rightarrow> string \<Rightarrow> string" where
  "rawPath env roundId = path_join env [TRANSCRIPTIONS_DIR env, roundId @ ''_raw.json'']"

definition deliberationPath :: "env \<Rightarrow> string \<Rightarrow> string" where
  "deliberationPath env roundId =
     path_join env [TRANSCRIPTIONS_DIR env, roundId @ ''_deliberation.json'']"

text \<open>The file-system calls of a \<open>saveTranscription\<close> that succeeds.\<close>

definition save_effects :: "env \<Rightarrow> string \<Rightarrow> json \<Rightarrow> DeliberationOntology \<Rightarrow> effect list" where
  "save_effects env roundId raw d =
     [FsCall (Mkdir (DATA_DIR env)), FsCall (Mkdir (TRANSCRIPTIONS_DIR env)),
      FsCall (Mkdir (AUDIO_DIR env)),
      FsCall (WriteFile (rawPath env roundId) (stringify_json env raw)),
      FsCall (WriteFile (deliberationPath env roundId) (stringify_ontology env d))]"

text \<open>Every call the computation issues satisfies \<open>P\<close>, whatever world it starts in.\<close>

definition emits :: "(effect \<Rightarrow> bool) \<Rightarrow> 'a io \<Rightarrow> bool" where
  "emits P m =
     (\<forall>w r w'. m w = (r, w') \<longrightarrow> (\<exists>xs. effects w' = effects w @ xs \<and> (\<forall>x \<in> set xs. P x)))"

text \<open>A write to the round store that sets the status to \<open>ERROR\<close>.\<close>

fun is_error_update :: "effect \<Rightarrow> bool" where
  "is_error_update (StoreCall (UpdateRound rid p)) = (set_status p = Some ERROR)"
| "is_error_update x = False"

text \<open>Whether the store accepts the \<open>ERROR\<close> update of the \<open>catch\<close> block.\<close>

definition error_update_accepted :: "env \<Rightarrow> string \<Rightarrow> world \<Rightarrow> bool" where
  "error_update_accepted env roundId w =
     (\<not> store_fails env (UpdateRound roundId (status_patch ERROR)) \<and> rounds w roundId \<noteq> None)"

text \<open>The round id the \<open>catch\<close> block of the generic route reads back, if it can.\<close>

definition reread_roundId :: "request \<Rightarrow> string option" where
  "reread_roundId req =
     (case clone_formData req of
        Inl e \<Rightarrow> None
      | Inr fd \<Rightarrow> if truthy_string (form_roundId fd) then form_roundId fd else None)"

text \<open>
  What a \<open>try\<close> block may issue: provider calls carry the fixed feature set with the
  given language, and no update of a round sets the status to \<open>ERROR\<close>.
\<close>

fun try_call_ok :: "string \<Rightarrow> effect \<Rightarrow> bool" where
  "try_call_ok lang (ProviderCall b opts) = (opts = deepgram_options lang)"
| "try_call_ok lang (StoreCall (UpdateRound rid p)) = (set_status p \<noteq> Some ERROR)"
| "try_call_ok lang x = True"

text \<open>The language the round route passes on for the round stored under the id.\<close>

definition lang_of_round :: "world \<Rightarrow> string \<Rightarrow> string" where
  "lang_of_round w roundId = (case rounds w roundId of None \<Rightarrow> ''en'' | Some r \<Rightarrow> round_language r)"

text \<open>
  The HTTP reading of two of the spec's error kinds: a response reports NotFoundError
  with status 404 (Not Found) and PreconditionError with status 409 (Conflict), 412
  (Precondition Failed) or 428 (Precondition Required).
\<close>

definition reports_NotFoundError :: "response \<Rightarrow> bool" where
  "reports_NotFoundError resp = (is_JsonError resp \<and> http_status resp = 404)"

definition reports_PreconditionError :: "response \<Rightarrow> bool" where
  "reports_PreconditionError resp =
     (is_JsonError resp \<and> (http_status resp = 409 \<or> http_status resp = 412
        \<or> http_status resp = 428))"

text \<open>The reply of the provider has no usable \<open>results\<close> member.\<close>

definition lacks_results :: "json option \<Rightarrow> bool" where
  "lacks_results result = (case result of None \<Rightarrow> True | Some j \<Rightarrow> \<not> has_results j)"

text \<open>The message of the error the route throws for such a reply.\<close>

definition rejection_message :: "json option \<Rightarrow> string" where
  "rejection_message result =
     (case result of
        None \<Rightarrow> ''Deepgram API returned null result''
      | Some j \<Rightarrow> if truthy j then ''Invalid response from Deepgram API''
                  else ''Deepgram API returned null result'')"

text \<open>The world with the status of one round blanked out.\<close>

definition forget_status :: "string \<Rightarrow> world \<Rightarrow> world" where
  "forget_status roundId w =
     w\<lparr>rounds := (rounds w)(roundId := map_option (\<lambda>r. r\<lparr>status := CREATED\<rparr>)
                                         (rounds w roundId))\<rparr>"

text \<open>
  From two worlds that differ at most in the status of the round, the computation gives
  the same outcome (results related by \<open>A\<close>) and worlds that again differ at most in
  that status.
\<close>

definition status_blind :: "string \<Rightarrow> ('a \<Rightarrow> 'a \<Rightarrow> bool) \<Rightarrow> 'a io \<Rightarrow> bool" where
  "status_blind roundId A m =
     (\<forall>w1 w2. forget_status roundId w1 = forget_status roundId w2 \<longrightarrow>
        rel_sum (=) A (fst (m w1)) (fst (m w2))
        \<and> forget_status roundId (snd (m w1)) = forget_status roundId (snd (m w2)))"

definition same_but_status :: "round \<Rightarrow> round \<Rightarrow> bool" where
  "same_but_status a b = (a\<lparr>status := CREATED\<rparr> = b\<lparr>status := CREATED\<rparr>)"

section \<open>The Deliberation Ontology Builder\<close>

text \<open>
  Modelled from the spec: the raw transcript the Ontology Builder reads. The builder,
  \<open>createDeliberationOntology\<close> of \<open>@/lib/deliberation/ontology\<close>, is not among the
  source files. The spec calls the transcript opaque provider output with words,
  utterances, speaker labels, timestamps and confidences under a top-level results
  structure, where the utterance-level data may be absent.
\<close>

record raw_word =
  word_speaker :: string
  word_start :: rat
  word_end :: rat
  word_text :: string
  word_confidence :: rat

record raw_results =
  utterance_data :: "utterance list option"
  tagged_words :: "raw_word list"

record RawTranscript =
  results :: "raw_results option"

datatype builder_error = MalformedInputError

text \<open>
  Modelled from the spec: the speakers mapping, from speaker label to aggregate speaking
  time and utterance indices. Each utterance adds its own duration to its speaker, so
  overlapping segments are kept and counted for both speakers.
\<close>

fun add_utterance ::
  "nat \<times> utterance \<Rightarrow> (string \<times> speaker_info) list \<Rightarrow> (string \<times> speaker_info) list" where
  "add_utterance (i, u) [] =
     [(speaker u, \<lparr> total_time = end_time u - start_time u, utterance_indices = [i] \<rparr>)]"
| "add_utterance (i, u) ((l, s) # rest) =
     (if l = speaker u
      then (l, \<lparr> total_time = total_time s + (end_time u - start_time u),
                 utterance_indices = utterance_indices s @ [i] \<rparr>) # rest
      else (l, s) # add_utterance (i, u) rest)"

definition speakers_of :: "utterance list \<Rightarrow> (string \<times> speaker_info) list" where
  "speakers_of us = fold add_utterance (enumerate 0 us) []"

text \<open>
  Modelled from the spec: \<open>duration_seconds = max(utterance.end)\<close>, and 0 for an empty
  utterance list.
\<close>

definition max_end :: "utterance list \<Rightarrow> rat" where
  "max_end us = (case map end_time us of [] \<Rightarrow> 0 | e # es \<Rightarrow> fold max es e)"

text \<open>Modelled from the spec: \<open>word_count\<close>, the words of the utterance texts.\<close>

fun split_words :: "string \<Rightarrow> string \<Rightarrow> string list" where
  "split_words cur [] = [rev cur]"
| "split_words cur (c # cs) =
     (if c = CHR '' '' then rev cur # split_words [] cs else split_words (c # cur) cs)"

definition count_words :: "string \<Rightarrow> nat" where
  "count_words s = length (filter (\<lambda>x. x \<noteq> []) (split_words [] s))"

text \<open>
  Modelled from the spec: \<open>build(rawTranscript, filename, language)\<close> of section 4.5.
  It fails with MalformedInputError when the top-level results structure is missing.
  When the utterance-level data is absent it takes the segments reconstructed from the
  speaker-tagged words; the spec does not say how they are reconstructed, so the
  reconstruction is a parameter. The utterances are ordered by start time, overlapping
  segments are kept, and the statistics are computed from the speakers mapping and the
  utterances.
\<close>

definition build ::
  "(raw_word list \<Rightarrow> utterance list) \<Rightarrow> RawTranscript \<Rightarrow> string \<Rightarrow> string
     \<Rightarrow> builder_error + DeliberationOntology" where
  "build reconstruct rawTranscript filename lang =
     (case results rawTranscript of
        None \<Rightarrow> Inl MalformedInputError
      | Some res \<Rightarrow>
          let segs = (case utterance_data res of
                        Some us \<Rightarrow> us
                      | None \<Rightarrow> reconstruct (tagged_words res));
              us = sort_key start_time segs;
              spk = speakers_of us
          in Inr \<lparr> metadata = \<lparr> meta_filename = filename, meta_language = lang \<rparr>,
                   speakers = spk,
                   utterances = us,
                   statistics =
                     \<lparr> total_speakers = length spk,
                       stats_duration_seconds = max_end us,
                       word_count = sum_list (map (\<lambda>u. count_words (text_of u)) us) \<rparr> \<rparr>)"

text \<open>The spec's example: A speaks from 0 to 5, B from 4 to 9.\<close>

definition overlap_transcript :: RawTranscript where
  "overlap_transcript =
     \<lparr> results = Some \<lparr> utterance_data =
         Some [\<lparr> speaker = ''B'', start_time = 4, end_time = 9, text_of = ''no way'',
                  confidence = 1 \<rparr>,
               \<lparr> speaker = ''A'', start_time = 0, end_time = 5, text_of = ''hello there'',
                  confidence = 1 \<rparr>],
         tagged_words = [] \<rparr> \<rparr>"

definition empty_transcript :: RawTranscript where
  "empty_transcript = \<lparr> results = Some \<lparr> utterance_data = Some [], tagged_words = [] \<rparr> \<rparr>"

text \<open>
  How the awaited provider call ends when it yields no transcript: it never settles, it
  rejects, it resolves with an error member, or it resolves to a reply without usable
  results. \<open>None\<close> when it yields a transcript.
\<close>

definition provider_failure :: "env \<Rightarrow> provider_outcome \<Rightarrow> abrupt option" where
  "provider_failure env out =
     (case out of
        NeverSettles \<Rightarrow> Some Unsettled
      | Rejects e \<Rightarrow> Some (Throws e)
      | Resolves result (Some err) \<Rightarrow>
          Some (Throws (new_Error env (''Deepgram API error: '' @ dg_error_text err)))
      | Resolves result None \<Rightarrow>
          if lacks_results result then Some (Throws (new_Error env (rejection_message result)))
          else None)"

text \<open>The calls of the round route up to and including the provider call.\<close>

definition calls_until_provider :: "env \<Rightarrow> string \<Rightarrow> string \<Rightarrow> bytes \<Rightarrow> string \<Rightarrow> effect list" where
  "calls_until_provider env roundId audioPath buffer lang =
     [StoreCall (GetRound roundId),
      StoreCall (UpdateRound roundId (status_patch PROCESSING)),
      FsCall (ReadFile (path_join env [cwd env, ''public'', audioPath])),
      ProviderCall buffer (deepgram_options lang)]"

section \<open>A concrete environment for the examples\<close>

fun segments :: "string \<Rightarrow> string \<Rightarrow> string list" where
  "segments cur [] = [rev cur]"
| "segments cur (c # cs) =
     (if c = CHR ''/'' then rev cur # segments [] cs else segments (c # cur) cs)"

fun join_segments :: "string list \<Rightarrow> string" where
  "join_segments [] = []"
| "join_segments [x] = x"
| "join_segments (x # y # zs) = x @ ''/'' @ join_segments (y # zs)"

text \<open>\<open>path.join\<close> on paths without dot segments: empty segments disappear.\<close>

definition slash_join :: "string list \<Rightarrow> string" where
  "slash_join ps =
     (if ps \<noteq> [] \<and> take 1 (hd ps) = ''/'' then ''/'' else [])
     @ join_segments (filter (\<lambda>x. x \<noteq> []) (concat (map (segments []) ps)))"

definition last_segment :: "string \<Rightarrow> string" where
  "last_segment p = rev (takeWhile (\<lambda>c. c \<noteq> CHR ''/'') (rev p))"

definition sample_ontology :: DeliberationOntology where
  "sample_ontology =
     \<lparr> metadata = \<lparr> meta_filename = ''r1.webm'', meta_language = ''en'' \<rparr>,
       speakers = [(''A'', \<lparr> total_time = 5, utterance_indices = [0] \<rparr>)],
       utterances = [\<lparr> speaker = ''A'', start_time = 0, end_time = 5, text_of = ''hi'',
                       confidence = 1 \<rparr>],
       statistics = \<lparr> total_speakers = 1, stats_duration_seconds = 5, word_count = 1 \<rparr> \<rparr>"

definition sample_env :: env where
  "sample_env =
     \<lparr> cwd = ''/app'',
       path_join = slash_join,
       path_basename = last_segment,
       DEEPGRAM_API_KEY = Some ''key'',
       fs_fails = (\<lambda>_. False),
       fs_error = (\<lambda>_. ErrorObj ''EIO'' ''Error: EIO at fs''),
       store_fails = (\<lambda>_. False),
       store_error = (\<lambda>_. ErrorObj ''store unavailable'' ''Error: store unavailable at rounds''),
       transcribeFile = (\<lambda>_ _. Resolves (Some (JObj [(''results'', JObj [])])) None),
       createDeliberationOntology = (\<lambda>_ _ _. Inr sample_ontology),
       stack_trace = (\<lambda>m. ''Error: '' @ m @ '' at POST''),
       stringify_json = (\<lambda>_. [1]),
       stringify_ontology = (\<lambda>_. [2]) \<rparr>"

definition sample_round :: round where
  "sample_round =
     \<lparr> round_id = ''r1'', name = ''Round 1'', description = None, language = Some ''it'',
       status = PROCESSING, audio_file = Some ''/audio/r1.webm'', transcription_file = None,
       duration_seconds = None, speaker_count = None, created_at = ''2024-01-01'' \<rparr>"

definition sample_world :: world where
  "sample_world =
     \<lparr> entries = [''/app/public/audio/r1.webm'' \<mapsto> File [7, 7]],
       rounds = [''r1'' \<mapsto> sample_round],
       effects = [],
       logs = [] \<rparr>"

definition sample_request :: request where
  "sample_request =
     \<lparr> formData = Inr \<lparr> form_audio = Some \<lparr> file_name = ''a.webm'', file_type = ''audio/webm'',
                                            file_bytes = [7, 7] \<rparr>,
                        form_roundId = Some ''r1'', form_filename = None \<rparr>,
       clone_formData = Inl (ErrorObj ''Body has already been consumed''
                                      ''TypeError: Body has already been consumed'') \<rparr>"

definition empty_world :: world where
  "empty_world = \<lparr> entries = Map.empty, rounds = Map.empty, effects = [], logs = [] \<rparr>"

definition nokey_env :: env where
  "nokey_env = sample_env\<lparr>DEEPGRAM_API_KEY := None\<rparr>"

definition rereadable_request :: request where
  "rereadable_request = sample_request\<lparr>clone_formData := formData sample_request\<rparr>"

definition nokey_error :: thrown where
  "nokey_error =
     ErrorObj ''DEEPGRAM_API_KEY not configured in environment variables''
       ''Error: DEEPGRAM_API_KEY not configured in environment variables at POST''"

definition no_audio_world :: world where
  "no_audio_world = sample_world\<lparr>entries := Map.empty\<rparr>"

definition no_results_env :: env where
  "no_results_env = sample_env\<lparr>transcribeFile := (\<lambda>_ _. Resolves (Some (JObj [])) None)\<rparr>"

definition created_world :: world where
  "created_world = sample_world\<lparr>rounds := [''r1'' \<mapsto> sample_round\<lparr>status := CREATED\<rparr>]\<rparr>"

definition hanging_env :: env where
  "hanging_env = sample_env\<lparr>transcribeFile := (\<lambda>_ _. NeverSettles)\<rparr>"

definition timeout_error :: thrown where
  "timeout_error = ErrorObj ''Request timed out'' ''Error: Request timed out at fetch''"

definition rejecting_env :: env where
  "rejecting_env = sample_env\<lparr>transcribeFile := (\<lambda>_ _. Rejects timeout_error)\<rparr>"

section \<open>Properties of the storage helpers\<close>

lemma io_then_apply:
  "io_then m k w = (case m w of (Inl e, w') \<Rightarrow> (Inl e, w') | (Inr a, w') \<Rightarrow> k w')"
  by (simp add: io_then_def io_bind_def)

lemmas io_defs =
  io_then_apply io_catch_def io_bind_def io_return_def io_throw_def io_settled_def
  log_msg_def record_effect_def

lemmas sample_defs =
  sample_env_def empty_world_def slash_join_def last_segment_def sample_world_def
  sample_round_def sample_request_def sample_ontology_def

lemmas files_defs =
  saveAudioFile_def ensureDirectories_def fs_mkdir_def fs_writeFile_def fs_readFile_def
  DATA_DIR_def TRANSCRIPTIONS_DIR_def AUDIO_DIR_def audio_extensions_def audio_stored_def
  fs_access_def audioFileExists_def

lemma audioFileExists_loop_find:
  "audioFileExists_loop env roundId exts w =
     map_option (\<lambda>e. ''/audio/'' @ roundId @ ''.'' @ e)
       (List.find (audio_stored env w roundId) exts)"
  by (induction exts) (simp_all add: audio_stored_def)

lemma audioFileExists_find:
  "audioFileExists env roundId w =
     map_option (\<lambda>e. ''/audio/'' @ roundId @ ''.'' @ e)
       (List.find (audio_stored env w roundId) audio_extensions)"
  by (simp add: audioFileExists_def audioFileExists_loop_find)





section \<open>Inversion of the primitive steps\<close>


lemma io_bind_InrE:
  assumes "io_bind m f w = (Inr b, w')"
  obtains a w1 where "m w = (Inr a, w1)" and "f a w1 = (Inr b, w')"
  using assms by (auto simp: io_bind_def split: prod.splits sum.splits abrupt.splits)

lemma io_then_InrE:
  assumes "io_then m k w = (Inr b, w')"
  obtains w1 where "m w = (Inr (), w1)" and "k w1 = (Inr b, w')"
  using assms by (auto simp: io_then_def io_bind_def split: prod.splits sum.splits abrupt.splits)

lemma log_msg_eq: "log_msg lvl m w = (r, w') \<longleftrightarrow> r = Inr () \<and> w' = w\<lparr>logs := logs w @ [(lvl, m)]\<rparr>"
  by (auto simp: log_msg_def)

lemma getRound_Inr:
  assumes "getRound env rid w = (Inr x, w')"
  shows "x = rounds w rid \<and> w' = w\<lparr>effects := effects w @ [StoreCall (GetRound rid)]\<rparr>"
  using assms by (auto simp: getRound_def io_then_apply record_effect_def split: if_splits)

lemma updateRound_Inr:
  assumes "updateRound env rid p w = (Inr x, w')"
  shows "\<exists>r. rounds w rid = Some r \<and> x = apply_patch p r
           \<and> w' = w\<lparr>rounds := (rounds w)(rid \<mapsto> apply_patch p r),
                     effects := effects w @ [StoreCall (UpdateRound rid p)]\<rparr>"
  using assms
  by (auto simp: updateRound_def io_then_apply record_effect_def split: if_splits option.splits)

lemma fs_readFile_Inr:
  assumes "fs_readFile env p w = (Inr b, w')"
  shows "entries w p = Some (File b) \<and> w' = w\<lparr>effects := effects w @ [FsCall (ReadFile p)]\<rparr>"
  using assms
  by (auto simp: fs_readFile_def io_then_apply record_effect_def
           split: if_splits option.splits fs_entry.splits)

lemma fs_mkdir_Inr:
  assumes "fs_mkdir env p w = (Inr u, w')"
  shows "w' = w\<lparr>entries := (entries w)(p \<mapsto> Dir), effects := effects w @ [FsCall (Mkdir p)]\<rparr>"
  using assms
  by (auto simp: fs_mkdir_def io_then_apply record_effect_def
           split: if_splits option.splits fs_entry.splits)

lemma fs_writeFile_Inr:
  assumes "fs_writeFile env p b w = (Inr u, w')"
  shows "w' = w\<lparr>entries := (entries w)(p \<mapsto> File b),
                 effects := effects w @ [FsCall (WriteFile p b)]\<rparr>"
  using assms
  by (auto simp: fs_writeFile_def io_then_apply record_effect_def
           split: if_splits option.splits fs_entry.splits)

lemma require_api_key_Inr:
  assumes "require_api_key env w = (Inr u, w')"
  shows "w' = w \<and> truthy_string (DEEPGRAM_API_KEY env)"
  using assms by (auto simp: require_api_key_def io_return_def io_throw_def split: if_splits)

lemma call_createDeliberationOntology_Inr:
  assumes "call_createDeliberationOntology env raw fn lang w = (Inr d, w')"
  shows "createDeliberationOntology env raw fn lang = Inr d
         \<and> w' = w\<lparr>effects := effects w @ [BuilderCall raw fn lang]\<rparr>"
  using assms
  by (auto simp: call_createDeliberationOntology_def io_then_apply record_effect_def
                 io_settled_def
           split: sum.splits)

lemma transcribe_checked_Inr:
  assumes "transcribe_checked env b lang dbg w = (Inr raw, w')"
  shows "transcribeFile env b (deepgram_options lang) = Resolves (Some raw) None
         \<and> truthy raw \<and> has_results raw
         \<and> w' = w\<lparr>effects := effects w @ [ProviderCall b (deepgram_options lang)],
                   logs := logs w' \<rparr>"
  using assms unfolding transcribe_checked_def
  by (auto simp: io_bind_def io_then_apply call_transcribeFile_def record_effect_def
                 io_throw_def io_return_def log_msg_def Let_def
           split: prod.splits sum.splits option.splits if_splits provider_outcome.splits)

lemma ensureDirectories_Inr:
  assumes "ensureDirectories env w = (Inr u, w')"
  shows "w' = w\<lparr>entries := (entries w)(DATA_DIR env \<mapsto> Dir, TRANSCRIPTIONS_DIR env \<mapsto> Dir,
                                        AUDIO_DIR env \<mapsto> Dir),
                 effects := effects w @ [FsCall (Mkdir (DATA_DIR env)),
                    FsCall (Mkdir (TRANSCRIPTIONS_DIR env)), FsCall (Mkdir (AUDIO_DIR env))]\<rparr>"
proof -
  from assms obtain w1 w2 where
    a: "fs_mkdir env (DATA_DIR env) w = (Inr (), w1)" and
    b: "fs_mkdir env (TRANSCRIPTIONS_DIR env) w1 = (Inr (), w2)" and
    c: "fs_mkdir env (AUDIO_DIR env) w2 = (Inr u, w')"
    unfolding ensureDirectories_def by (elim io_then_InrE)
  show ?thesis
    unfolding fs_mkdir_Inr [OF c] fs_mkdir_Inr [OF b] fs_mkdir_Inr [OF a] by simp
qed

lemma saveTranscription_Inr:
  assumes "saveTranscription env roundId raw d w = (Inr x, w')"
  shows "effects w' = effects w @ save_effects env roundId raw d \<and> rounds w' = rounds w"
  using assms
  by (auto simp: saveTranscription_def io_then_apply io_catch_def io_return_def io_throw_def
                 log_msg_def Let_def save_effects_def rawPath_def deliberationPath_def
           split: prod.splits sum.splits abrupt.splits
           dest!: ensureDirectories_Inr fs_writeFile_Inr)

lemma round_POST_process_Inr:
  assumes "round_POST_process env roundId rnd audioPath w = (Inr resp, w')"
  shows "\<exists>raw d buffer r0.
           resp = JsonSuccess roundId d ''Transcription completed successfully''
         \<and> rounds w roundId = Some r0
         \<and> transcribeFile env buffer (deepgram_options (round_language rnd)) = Resolves (Some raw) None
         \<and> has_results raw
         \<and> createDeliberationOntology env raw (path_basename env audioPath) (Some (round_language rnd)) = Inr d
         \<and> effects w' = effects w @
              [StoreCall (UpdateRound roundId (status_patch PROCESSING)),
               FsCall (ReadFile (path_join env [cwd env, ''public'', audioPath])),
               ProviderCall buffer (deepgram_options (round_language rnd)),
               BuilderCall raw (path_basename env audioPath) (Some (round_language rnd))]
              @ save_effects env roundId raw d
              @ [StoreCall (UpdateRound roundId (completed_patch_round roundId audioPath d))]
         \<and> rounds w' roundId = Some (apply_patch (completed_patch_round roundId audioPath d)
                                        (apply_patch (status_patch PROCESSING) r0))"
proof -
  let ?lang = "round_language rnd"
  let ?fn = "path_basename env audioPath"
  from assms obtain r1 w1 buffer w2 w3 w4 raw w5 d w6 sv w7 w8 r2 w9 where
    s1: "updateRound env roundId (status_patch PROCESSING) w = (Inr r1, w1)" and
    s2: "fs_readFile env (path_join env [cwd env, ''public'', audioPath]) w1 = (Inr buffer, w2)" and
    s3: "log_msg Info ''Starting Deepgram transcription'' w2 = (Inr (), w3)" and
    s4: "require_api_key env w3 = (Inr (), w4)" and
    s5: "transcribe_checked env buffer ?lang False w4 = (Inr raw, w5)" and
    s6: "call_createDeliberationOntology env raw ?fn (Some ?lang) w5 = (Inr d, w6)" and
    s7: "saveTranscription env roundId raw d w6 = (Inr sv, w7)" and
    s8: "log_msg Info ''Transcription files saved successfully'' w7 = (Inr (), w8)" and
    s9: "updateRound env roundId (completed_patch_round roundId audioPath d) w8 = (Inr r2, w9)" and
    s10: "io_return (JsonSuccess roundId d ''Transcription completed successfully'') w9 = (Inr resp, w')"
    unfolding round_POST_process_def Let_def
    by (elim io_bind_InrE io_then_InrE)
  from updateRound_Inr [OF s1] obtain r0 where
    r0: "rounds w roundId = Some r0" and
    e1: "effects w1 = effects w @ [StoreCall (UpdateRound roundId (status_patch PROCESSING))]" and
    q1: "rounds w1 roundId = Some (apply_patch (status_patch PROCESSING) r0)"
    by auto
  from fs_readFile_Inr [OF s2] have
    e2: "effects w2 = effects w1 @ [FsCall (ReadFile (path_join env [cwd env, ''public'', audioPath]))]"
    and q2: "rounds w2 = rounds w1" by simp_all
  from s3 have e3: "effects w3 = effects w2" and q3: "rounds w3 = rounds w2"
    by (simp_all add: log_msg_eq)
  from require_api_key_Inr [OF s4] have w4: "w4 = w3" by simp
  from transcribe_checked_Inr [OF s5] have
    tf: "transcribeFile env buffer (deepgram_options ?lang) = Resolves (Some raw) None" and
    hr: "has_results raw" and
    w5: "w5 = w4\<lparr>effects := effects w4 @ [ProviderCall buffer (deepgram_options ?lang)],
                  logs := logs w5\<rparr>"
    by blast+
  from w5 have e5: "effects w5 = effects w4 @ [ProviderCall buffer (deepgram_options ?lang)]"
    and q5: "rounds w5 = rounds w4"
    by (cases w5, cases w4, simp)+
  from call_createDeliberationOntology_Inr [OF s6] have
    cd: "createDeliberationOntology env raw ?fn (Some ?lang) = Inr d" and
    e6: "effects w6 = effects w5 @ [BuilderCall raw ?fn (Some ?lang)]" and
    q6: "rounds w6 = rounds w5" by simp_all
  from saveTranscription_Inr [OF s7] have
    e7: "effects w7 = effects w6 @ save_effects env roundId raw d" and
    q7: "rounds w7 = rounds w6" by simp_all
  from s8 have e8: "effects w8 = effects w7" and q8: "rounds w8 = rounds w7"
    by (simp_all add: log_msg_eq)
  from updateRound_Inr [OF s9] obtain r8 where
    r8: "rounds w8 roundId = Some r8" and
    e9: "effects w9 = effects w8 @ [StoreCall (UpdateRound roundId (completed_patch_round roundId audioPath d))]" and
    q9: "rounds w9 roundId = Some (apply_patch (completed_patch_round roundId audioPath d) r8)"
    by auto
  from s10 have fin: "w' = w9" "resp = JsonSuccess roundId d ''Transcription completed successfully''"
    by (simp_all add: io_return_def)
  from r8 q8 q7 q6 q5 w4 q3 q2 q1 have "r8 = apply_patch (status_patch PROCESSING) r0" by simp
  with q9 fin have rr: "rounds w' roundId = Some (apply_patch (completed_patch_round roundId audioPath d)
                                        (apply_patch (status_patch PROCESSING) r0))" by simp
  from e9 e8 e7 e6 e5 w4 e3 e2 e1 fin
  have ee: "effects w' = effects w @
              [StoreCall (UpdateRound roundId (status_patch PROCESSING)),
               FsCall (ReadFile (path_join env [cwd env, ''public'', audioPath])),
               ProviderCall buffer (deepgram_options (round_language rnd)),
               BuilderCall raw (path_basename env audioPath) (Some (round_language rnd))]
              @ save_effects env roundId raw d
              @ [StoreCall (UpdateRound roundId (completed_patch_round roundId audioPath d))]"
    by simp
  from fin r0 tf hr cd ee rr show ?thesis by blast
qed

lemma round_POST_catch_eq:
  "round_POST_catch env roundId e w =
     (Inr (failure_response e),
      if error_update_accepted env roundId w
      then w\<lparr>rounds := (rounds w)(roundId \<mapsto> apply_patch (status_patch ERROR) (the (rounds w roundId))),
             effects := effects w @ [StoreCall (UpdateRound roundId (status_patch ERROR))],
             logs := logs w @ [(Err, ''Transcription error occurred''),
                               (Info, ''Updated round status to ERROR'')]\<rparr>
      else w\<lparr>effects := effects w @ [StoreCall (UpdateRound roundId (status_patch ERROR))],
             logs := logs w @ [(Err, ''Transcription error occurred''),
                               (Warn, ''Failed to update round status'')]\<rparr>)"
  by (auto simp: round_POST_catch_def error_update_accepted_def io_then_apply io_catch_def
                 io_bind_def io_return_def log_msg_def updateRound_def record_effect_def
           split: option.splits)

lemma audioFileExists_entries:
  assumes "entries w1 = entries w"
  shows "audioFileExists env roundId w1 = audioFileExists env roundId w"
proof -
  have "audio_stored env w1 roundId = audio_stored env w roundId"
    by (rule ext) (simp add: audio_stored_def fs_access_def assms)
  then show ?thesis by (simp add: audioFileExists_find)
qed

lemma round_POST_try_Inr:
  assumes "round_POST_try env roundId w = (Inr resp, w')"
  shows "(rounds w roundId = None \<and> resp = JsonError 404 ''Round not found'' None
            \<and> effects w' = effects w @ [StoreCall (GetRound roundId)] \<and> rounds w' = rounds w
            \<and> entries w' = entries w)
       \<or> (rounds w roundId \<noteq> None \<and> audioFileExists env roundId w = None
            \<and> resp = JsonError 404 ''Audio file not found. Recording may not have completed yet.'' None
            \<and> effects w' = effects w @ [StoreCall (GetRound roundId)] \<and> rounds w' = rounds w
            \<and> entries w' = entries w)
       \<or> (\<exists>rnd audioPath w1. rounds w roundId = Some rnd \<and> audioFileExists env roundId w = Some audioPath
            \<and> effects w1 = effects w @ [StoreCall (GetRound roundId)] \<and> rounds w1 = rounds w
            \<and> round_POST_process env roundId rnd audioPath w1 = (Inr resp, w'))"
proof -
  from assms obtain found w1 where
    g: "getRound env roundId w = (Inr found, w1)" and
    k: "(case found of
         None \<Rightarrow>
           io_then (log_msg Warn ''Round not found'')
             (io_return (JsonError 404 ''Round not found'' None))
       | Some rnd \<Rightarrow> round_POST_found env roundId rnd) w1 = (Inr resp, w')"
    unfolding round_POST_try_def by (erule io_bind_InrE)
  from getRound_Inr [OF g] have found: "found = rounds w roundId"
    and w1: "w1 = w\<lparr>effects := effects w @ [StoreCall (GetRound roundId)]\<rparr>" by simp_all
  have afe: "audioFileExists env roundId w1 = audioFileExists env roundId w"
    by (rule audioFileExists_entries) (simp add: w1)
  show ?thesis
  proof (cases found)
    case None
    with k found w1 show ?thesis
      by (auto simp: io_then_apply io_return_def log_msg_def)
  next
    case (Some rnd)
    show ?thesis
    proof (cases "audioFileExists env roundId w")
      case None
      with k Some found w1 afe show ?thesis
        by (auto simp: round_POST_found_def io_then_apply io_return_def log_msg_def)
    next
      case (Some audioPath)
      with k \<open>found = Some rnd\<close> afe
      have "round_POST_process env roundId rnd audioPath
              (w1\<lparr>logs := logs w1 @ [(Info, ''Found audio file'')]\<rparr>) = (Inr resp, w')"
        by (auto simp: round_POST_found_def io_then_apply log_msg_def)
      with Some found \<open>found = Some rnd\<close> w1 show ?thesis
        by (intro disjI2) (rule exI [of _ rnd], rule exI [of _ audioPath],
            rule exI [of _ "w1\<lparr>logs := logs w1 @ [(Info, ''Found audio file'')]\<rparr>"], simp)
    qed
  qed
qed

lemma round_POST_success:
  assumes "round_POST env roundId w = (Inr (JsonSuccess a d msg), w')"
  shows "\<exists>rnd audioPath buffer raw.
           rounds w roundId = Some rnd
         \<and> audioFileExists env roundId w = Some audioPath
         \<and> transcribeFile env buffer (deepgram_options (round_language rnd)) = Resolves (Some raw) None
         \<and> createDeliberationOntology env raw (path_basename env audioPath) (Some (round_language rnd)) = Inr d
         \<and> issued w w' =
              [StoreCall (GetRound roundId),
               StoreCall (UpdateRound roundId (status_patch PROCESSING)),
               FsCall (ReadFile (path_join env [cwd env, ''public'', audioPath])),
               ProviderCall buffer (deepgram_options (round_language rnd)),
               BuilderCall raw (path_basename env audioPath) (Some (round_language rnd))]
              @ save_effects env roundId raw d
              @ [StoreCall (UpdateRound roundId (completed_patch_round roundId audioPath d))]
         \<and> rounds w' roundId = Some (apply_patch (completed_patch_round roundId audioPath d)
                                        (apply_patch (status_patch PROCESSING) rnd))"
proof -
  from assms have t: "round_POST_try env roundId w = (Inr (JsonSuccess a d msg), w')"
    by (auto simp: round_POST_def io_catch_def round_POST_catch_eq failure_response_def
             split: prod.splits sum.splits abrupt.splits)
  from round_POST_try_Inr [OF t] obtain rnd audioPath w1 where
    r: "rounds w roundId = Some rnd" and ap: "audioFileExists env roundId w = Some audioPath" and
    e1: "effects w1 = effects w @ [StoreCall (GetRound roundId)]" and q1: "rounds w1 = rounds w" and
    p: "round_POST_process env roundId rnd audioPath w1 = (Inr (JsonSuccess a d msg), w')"
    by auto
  from round_POST_process_Inr [OF p] r q1 e1 ap show ?thesis
    by (auto simp: issued_def)
qed

lemma generic_POST_catch_eq:
  "generic_POST_catch env req e w =
     (Inr (failure_response e),
      case reread_roundId req of
        Some roundId \<Rightarrow>
          if error_update_accepted env roundId w
          then w\<lparr>rounds := (rounds w)(roundId \<mapsto> apply_patch (status_patch ERROR) (the (rounds w roundId))),
                 effects := effects w @ [StoreCall (UpdateRound roundId (status_patch ERROR))],
                 logs := logs w @ [(Err, ''Transcription error occurred''),
                                   (Info, ''Updated round status to ERROR'')]\<rparr>
          else w\<lparr>effects := effects w @ [StoreCall (UpdateRound roundId (status_patch ERROR))],
                 logs := logs w @ [(Err, ''Transcription error occurred''),
                                   (Warn, ''Failed to update round status'')]\<rparr>
      | None \<Rightarrow>
          (case clone_formData req of
             Inl x \<Rightarrow> w\<lparr>logs := logs w @ [(Err, ''Transcription error occurred''),
                                          (Warn, ''Failed to update round status'')]\<rparr>
           | Inr fd \<Rightarrow> w\<lparr>logs := logs w @ [(Err, ''Transcription error occurred'')]\<rparr>))"
  by (auto simp: generic_POST_catch_def error_update_accepted_def reread_roundId_def
                 io_then_apply io_catch_def read_form_def io_settled_def truthy_string_def
                 io_bind_def io_return_def log_msg_def updateRound_def record_effect_def
           split: option.splits sum.splits)

lemma generic_POST_process_Inr:
  assumes "generic_POST_process env roundId audioFile filename w = (Inr resp, w')"
  shows "\<exists>raw d r0.
           resp = JsonSuccess roundId d ''Transcription completed successfully''
         \<and> rounds w roundId = Some r0
         \<and> transcribeFile env (file_bytes audioFile) (deepgram_options ''en'') = Resolves (Some raw) None
         \<and> has_results raw
         \<and> createDeliberationOntology env raw filename None = Inr d
         \<and> effects w' = effects w @
              [StoreCall (UpdateRound roundId (status_patch PROCESSING)),
               ProviderCall (file_bytes audioFile) (deepgram_options ''en''),
               BuilderCall raw filename None]
              @ save_effects env roundId raw d
              @ [StoreCall (UpdateRound roundId (completed_patch_generic roundId d))]
         \<and> rounds w' roundId = Some (apply_patch (completed_patch_generic roundId d)
                                        (apply_patch (status_patch PROCESSING) r0))"
proof -
  let ?buffer = "file_bytes audioFile"
  from assms obtain r1 w1 w3 w4 raw w5 d w6 sv w7 w8 r2 w9 where
    s1: "updateRound env roundId (status_patch PROCESSING) w = (Inr r1, w1)" and
    s4: "require_api_key env w1 = (Inr (), w3)" and
    s3: "log_msg Info ''Starting Deepgram transcription'' w3 = (Inr (), w4)" and
    s5: "transcribe_checked env ?buffer ''en'' True w4 = (Inr raw, w5)" and
    s6: "call_createDeliberationOntology env raw filename None w5 = (Inr d, w6)" and
    s7: "saveTranscription env roundId raw d w6 = (Inr sv, w7)" and
    s8: "log_msg Info ''Transcription files saved successfully'' w7 = (Inr (), w8)" and
    s9: "updateRound env roundId (completed_patch_generic roundId d) w8 = (Inr r2, w9)" and
    s10: "io_return (JsonSuccess roundId d ''Transcription completed successfully'') w9 = (Inr resp, w')"
    unfolding generic_POST_process_def Let_def
    by (elim io_bind_InrE io_then_InrE)
  from updateRound_Inr [OF s1] obtain r0 where
    r0: "rounds w roundId = Some r0" and
    e1: "effects w1 = effects w @ [StoreCall (UpdateRound roundId (status_patch PROCESSING))]" and
    q1: "rounds w1 roundId = Some (apply_patch (status_patch PROCESSING) r0)"
    by auto
  from require_api_key_Inr [OF s4] have w3: "w3 = w1" by simp
  from s3 have e3: "effects w4 = effects w3" and q3: "rounds w4 = rounds w3"
    by (simp_all add: log_msg_eq)
  from transcribe_checked_Inr [OF s5] have
    tf: "transcribeFile env ?buffer (deepgram_options ''en'') = Resolves (Some raw) None" and
    hr: "has_results raw" and
    w5: "w5 = w4\<lparr>effects := effects w4 @ [ProviderCall ?buffer (deepgram_options ''en'')],
                  logs := logs w5\<rparr>"
    by blast+
  from w5 have e5: "effects w5 = effects w4 @ [ProviderCall ?buffer (deepgram_options ''en'')]"
    and q5: "rounds w5 = rounds w4"
    by (cases w5, cases w4, simp)+
  from call_createDeliberationOntology_Inr [OF s6] have
    cd: "createDeliberationOntology env raw filename None = Inr d" and
    e6: "effects w6 = effects w5 @ [BuilderCall raw filename None]" and
    q6: "rounds w6 = rounds w5" by simp_all
  from saveTranscription_Inr [OF s7] have
    e7: "effects w7 = effects w6 @ save_effects env roundId raw d" and
    q7: "rounds w7 = rounds w6" by simp_all
  from s8 have e8: "effects w8 = effects w7" and q8: "rounds w8 = rounds w7"
    by (simp_all add: log_msg_eq)
  from updateRound_Inr [OF s9] obtain r8 where
    r8: "rounds w8 roundId = Some r8" and
    e9: "effects w9 = effects w8 @ [StoreCall (UpdateRound roundId (completed_patch_generic roundId d))]" and
    q9: "rounds w9 roundId = Some (apply_patch (completed_patch_generic roundId d) r8)"
    by auto
  from s10 have fin: "w' = w9" "resp = JsonSuccess roundId d ''Transcription completed successfully''"
    by (simp_all add: io_return_def)
  from r8 q8 q7 q6 q5 w3 q3 q1 have "r8 = apply_patch (status_patch PROCESSING) r0" by simp
  with q9 fin have rr: "rounds w' roundId = Some (apply_patch (completed_patch_generic roundId d)
                                        (apply_patch (status_patch PROCESSING) r0))" by simp
  from e9 e8 e7 e6 e5 w3 e3 e1 fin
  have ee: "effects w' = effects w @
              [StoreCall (UpdateRound roundId (status_patch PROCESSING)),
               ProviderCall ?buffer (deepgram_options ''en''),
               BuilderCall raw filename None]
              @ save_effects env roundId raw d
              @ [StoreCall (UpdateRound roundId (completed_patch_generic roundId d))]"
    by simp
  from fin r0 tf hr cd ee rr show ?thesis by blast
qed

lemma generic_POST_try_Inr:
  assumes "generic_POST_try env req w = (Inr resp, w')"
  shows "\<exists>fd. formData req = Inr fd \<and>
       ((form_audio fd = None \<and> resp = JsonError 400 ''No audio file provided'' None
            \<and> effects w' = effects w \<and> rounds w' = rounds w \<and> entries w' = entries w)
       \<or> (form_audio fd \<noteq> None \<and> \<not> truthy_string (form_roundId fd)
            \<and> resp = JsonError 400 ''Round ID is required'' None
            \<and> effects w' = effects w \<and> rounds w' = rounds w \<and> entries w' = entries w)
       \<or> (\<exists>audioFile roundId. form_audio fd = Some audioFile \<and> form_roundId fd = Some roundId
            \<and> roundId \<noteq> []
            \<and> generic_POST_process env roundId audioFile (form_filename_or_default fd) w
                = (Inr resp, w')))"
  using assms
  by (auto simp: generic_POST_try_def io_bind_def read_form_def io_settled_def io_then_apply
                 io_return_def log_msg_def truthy_string_def
           split: sum.splits option.splits if_splits)

lemma generic_POST_success:
  assumes "generic_POST env req w = (Inr (JsonSuccess a d msg), w')"
  shows "\<exists>fd audioFile roundId raw rnd.
           formData req = Inr fd \<and> form_audio fd = Some audioFile \<and> form_roundId fd = Some roundId
         \<and> rounds w roundId = Some rnd
         \<and> transcribeFile env (file_bytes audioFile) (deepgram_options ''en'') = Resolves (Some raw) None
         \<and> createDeliberationOntology env raw (form_filename_or_default fd) None = Inr d
         \<and> issued w w' =
              [StoreCall (UpdateRound roundId (status_patch PROCESSING)),
               ProviderCall (file_bytes audioFile) (deepgram_options ''en''),
               BuilderCall raw (form_filename_or_default fd) None]
              @ save_effects env roundId raw d
              @ [StoreCall (UpdateRound roundId (completed_patch_generic roundId d))]
         \<and> rounds w' roundId = Some (apply_patch (completed_patch_generic roundId d)
                                        (apply_patch (status_patch PROCESSING) rnd))"
proof -
  from assms have t: "generic_POST_try env req w = (Inr (JsonSuccess a d msg), w')"
    by (auto simp: generic_POST_def io_catch_def generic_POST_catch_eq failure_response_def
             split: prod.splits sum.splits abrupt.splits)
  from generic_POST_try_Inr [OF t] obtain fd audioFile roundId where
    fd: "formData req = Inr fd" "form_audio fd = Some audioFile" "form_roundId fd = Some roundId" and
    p: "generic_POST_process env roundId audioFile (form_filename_or_default fd) w
          = (Inr (JsonSuccess a d msg), w')"
    by auto
  from generic_POST_process_Inr [OF p] fd show ?thesis
    by (auto simp: issued_def)
qed

lemmas route_defs =
  round_POST_def round_POST_try_def round_POST_found_def round_POST_catch_def
  round_POST_process_def
  generic_POST_def generic_POST_try_def generic_POST_catch_def generic_POST_process_def
  getRound_def updateRound_def transcribe_checked_def call_transcribeFile_def
  call_createDeliberationOntology_def saveTranscription_def require_api_key_def
  truthy_string_def has_results_def deepgram_options_def status_patch_def no_patch_def
  round_language_def completed_patch_round_def completed_patch_generic_def
  read_form_def form_filename_or_default_def failure_response_def new_Error_def
  apply_patch_def dg_error_text_def

section \<open>The successful run\<close>

text \<open>
  C2. A run that answers with the success response has, in this order, written the raw
  provider response and the ontology built from it to the transcription files and only
  then, as its last call, updated the round to \<open>COMPLETED\<close> with
  \<open>duration_seconds\<close> and \<open>speaker_count\<close> set to \<open>statistics.duration_seconds\<close>
  and \<open>statistics.total_speakers\<close> of the builder's result; the stored round then
  carries these values. This holds for the round route and for the generic route.
\<close>

theorem completed_after_persisting:
  "(round_POST env roundId w = (Inr (JsonSuccess a d msg), w') \<longrightarrow>
      (\<exists>rnd audioPath buffer raw r'.
           transcribeFile env buffer (deepgram_options (round_language rnd)) = Resolves (Some raw) None
         \<and> createDeliberationOntology env raw (path_basename env audioPath)
              (Some (round_language rnd)) = Inr d
         \<and> issued w w' =
              [StoreCall (GetRound roundId),
               StoreCall (UpdateRound roundId (status_patch PROCESSING)),
               FsCall (ReadFile (path_join env [cwd env, ''public'', audioPath])),
               ProviderCall buffer (deepgram_options (round_language rnd)),
               BuilderCall raw (path_basename env audioPath) (Some (round_language rnd)),
               FsCall (Mkdir (DATA_DIR env)), FsCall (Mkdir (TRANSCRIPTIONS_DIR env)),
               FsCall (Mkdir (AUDIO_DIR env)),
               FsCall (WriteFile (rawPath env roundId) (stringify_json env raw)),
               FsCall (WriteFile (deliberationPath env roundId) (stringify_ontology env d)),
               StoreCall (UpdateRound roundId
                 \<lparr> set_status = Some COMPLETED, set_audio_file = Some audioPath,
                   set_transcription_file = Some (roundId @ ''_deliberation.json''),
                   set_duration_seconds = Some (stats_duration_seconds (statistics d)),
                   set_speaker_count = Some (total_speakers (statistics d)) \<rparr>)]
         \<and> rounds w' roundId = Some r' \<and> status r' = COMPLETED
         \<and> duration_seconds r' = Some (stats_duration_seconds (statistics d))
         \<and> speaker_count r' = Some (total_speakers (statistics d))))
   \<and> (generic_POST env req w = (Inr (JsonSuccess a d msg), w') \<longrightarrow>
      (\<exists>fd audioFile rid raw r'.
           formData req = Inr fd \<and> form_audio fd = Some audioFile \<and> form_roundId fd = Some rid
         \<and> transcribeFile env (file_bytes audioFile) (deepgram_options ''en'') = Resolves (Some raw) None
         \<and> createDeliberationOntology env raw (form_filename_or_default fd) None = Inr d
         \<and> issued w w' =
              [StoreCall (UpdateRound rid (status_patch PROCESSING)),
               ProviderCall (file_bytes audioFile) (deepgram_options ''en''),
               BuilderCall raw (form_filename_or_default fd) None,
               FsCall (Mkdir (DATA_DIR env)), FsCall (Mkdir (TRANSCRIPTIONS_DIR env)),
               FsCall (Mkdir (AUDIO_DIR env)),
               FsCall (WriteFile (rawPath env rid) (stringify_json env raw)),
               FsCall (WriteFile (deliberationPath env rid) (stringify_ontology env d)),
               StoreCall (UpdateRound rid
                 \<lparr> set_status = Some COMPLETED, set_audio_file = None,
                   set_transcription_file = Some (rid @ ''_deliberation.json''),
                   set_duration_seconds = Some (stats_duration_seconds (statistics d)),
                   set_speaker_count = Some (total_speakers (statistics d)) \<rparr>)]
         \<and> rounds w' rid = Some r' \<and> status r' = COMPLETED
         \<and> duration_seconds r' = Some (stats_duration_seconds (statistics d))
         \<and> speaker_count r' = Some (total_speakers (statistics d))))"
  (is "(?run1 \<longrightarrow> ?goal1) \<and> (?run2 \<longrightarrow> ?goal2)")
proof (intro conjI impI)
  assume run: "round_POST env roundId w = (Inr (JsonSuccess a d msg), w')"
  from round_POST_success [OF run] obtain rnd audioPath buffer raw where
    h: "transcribeFile env buffer (deepgram_options (round_language rnd)) = Resolves (Some raw) None"
       "createDeliberationOntology env raw (path_basename env audioPath)
              (Some (round_language rnd)) = Inr d"
       "issued w w' =
              [StoreCall (GetRound roundId),
               StoreCall (UpdateRound roundId (status_patch PROCESSING)),
               FsCall (ReadFile (path_join env [cwd env, ''public'', audioPath])),
               ProviderCall buffer (deepgram_options (round_language rnd)),
               BuilderCall raw (path_basename env audioPath) (Some (round_language rnd))]
              @ save_effects env roundId raw d
              @ [StoreCall (UpdateRound roundId (completed_patch_round roundId audioPath d))]"
       "rounds w' roundId = Some (apply_patch (completed_patch_round roundId audioPath d)
                                        (apply_patch (status_patch PROCESSING) rnd))"
    by blast
  show ?goal1
    apply (rule exI [of _ rnd], rule exI [of _ audioPath], rule exI [of _ buffer],
           rule exI [of _ raw])
    using h by (simp add: save_effects_def completed_patch_round_def apply_patch_def)
next
  assume run: "generic_POST env req w = (Inr (JsonSuccess a d msg), w')"
  from generic_POST_success [OF run] obtain fd audioFile rid raw rnd where
    h: "formData req = Inr fd" "form_audio fd = Some audioFile" "form_roundId fd = Some rid"
       "transcribeFile env (file_bytes audioFile) (deepgram_options ''en'') = Resolves (Some raw) None"
       "createDeliberationOntology env raw (form_filename_or_default fd) None = Inr d"
       "issued w w' =
              [StoreCall (UpdateRound rid (status_patch PROCESSING)),
               ProviderCall (file_bytes audioFile) (deepgram_options ''en''),
               BuilderCall raw (form_filename_or_default fd) None]
              @ save_effects env rid raw d
              @ [StoreCall (UpdateRound rid (completed_patch_generic rid d))]"
       "rounds w' rid = Some (apply_patch (completed_patch_generic rid d)
                                        (apply_patch (status_patch PROCESSING) rnd))"
    by blast
  show ?goal2
    apply (rule exI [of _ fd], rule exI [of _ audioFile], rule exI [of _ rid],
           rule exI [of _ raw])
    using h by (simp add: save_effects_def completed_patch_generic_def apply_patch_def)
qed

theorem completed_after_persisting_witness:
  "fst (round_POST sample_env ''r1'' sample_world) =
     Inr (JsonSuccess ''r1'' sample_ontology ''Transcription completed successfully'')
   \<and> (\<exists>r'. rounds (snd (round_POST sample_env ''r1'' sample_world)) ''r1'' = Some r'
          \<and> status r' = COMPLETED \<and> duration_seconds r' = Some 5 \<and> speaker_count r' = Some 1)
   \<and> fst (generic_POST sample_env sample_request sample_world) =
     Inr (JsonSuccess ''r1'' sample_ontology ''Transcription completed successfully'')
   \<and> (\<exists>r'. rounds (snd (generic_POST sample_env sample_request sample_world)) ''r1'' = Some r'
          \<and> status r' = COMPLETED \<and> duration_seconds r' = Some 5 \<and> speaker_count r' = Some 1)"
proof -
  let ?ok = "JsonSuccess ''r1'' sample_ontology ''Transcription completed successfully''"
  let ?a = "round_POST sample_env ''r1'' sample_world"
  let ?b = "generic_POST sample_env sample_request sample_world"
  have fa: "fst ?a = Inr ?ok"
    by (simp add: route_defs io_defs sample_defs files_defs audioFileExists_find Let_def)
  have fb: "fst ?b = Inr ?ok"
    by (simp add: route_defs io_defs sample_defs files_defs audioFileExists_find Let_def)
  from fa have a: "?a = (Inr ?ok, snd ?a)" by (simp add: prod_eq_iff)
  from fb have b: "?b = (Inr ?ok, snd ?b)" by (simp add: prod_eq_iff)
  have st: "stats_duration_seconds (statistics sample_ontology) = 5"
           "total_speakers (statistics sample_ontology) = 1"
    by (simp_all add: sample_ontology_def)
  note inst = completed_after_persisting
    [of sample_env "''r1''" sample_world "''r1''" sample_ontology
        "''Transcription completed successfully''" _ sample_request]
  from inst [of "snd ?a"] a have "\<exists>r'. rounds (snd ?a) ''r1'' = Some r' \<and> status r' = COMPLETED
      \<and> duration_seconds r' = Some (stats_duration_seconds (statistics sample_ontology))
      \<and> speaker_count r' = Some (total_speakers (statistics sample_ontology))"
    by blast
  moreover
  from inst [of "snd ?b"] b have "\<exists>fd rid r'. formData sample_request = Inr fd \<and> form_roundId fd = Some rid
      \<and> rounds (snd ?b) rid = Some r' \<and> status r' = COMPLETED
      \<and> duration_seconds r' = Some (stats_duration_seconds (statistics sample_ontology))
      \<and> speaker_count r' = Some (total_speakers (statistics sample_ontology))"
    by blast
  then have "\<exists>r'. rounds (snd ?b) ''r1'' = Some r' \<and> status r' = COMPLETED
      \<and> duration_seconds r' = Some (stats_duration_seconds (statistics sample_ontology))
      \<and> speaker_count r' = Some (total_speakers (statistics sample_ontology))"
    by (auto simp: sample_request_def)
  ultimately show ?thesis using fa fb st by simp
qed

section \<open>What a run issues\<close>

lemma emitsI:
  assumes "\<And>w r w'. m w = (r, w') \<Longrightarrow> \<exists>xs. effects w' = effects w @ xs \<and> (\<forall>x \<in> set xs. P x)"
  shows "emits P m"
  using assms unfolding emits_def by blast

lemma emitsD:
  assumes "emits P m" and "m w = (r, w')"
  obtains xs where "effects w' = effects w @ xs" and "\<forall>x \<in> set xs. P x"
  using assms unfolding emits_def by blast

lemma emits_silent:
  assumes "\<And>w. effects (snd (m w)) = effects w"
  shows "emits P m"
proof (rule emitsI)
  fix w r w' assume "m w = (r, w')"
  then have "snd (m w) = w'" by simp
  with assms [of w] have "effects w' = effects w" by simp
  then show "\<exists>xs. effects w' = effects w @ xs \<and> (\<forall>x \<in> set xs. P x)"
    by (intro exI [of _ "[]"]) simp
qed

lemma emits_return: "emits P (io_return a)"
  by (rule emits_silent) (simp add: io_return_def)

lemma emits_throw: "emits P (io_throw e)"
  by (rule emits_silent) (simp add: io_throw_def)

lemma emits_log: "emits P (log_msg lvl s)"
  by (rule emits_silent) (simp add: log_msg_def)

lemma emits_record: "P x \<Longrightarrow> emits P (record_effect x)"
  by (rule emitsI) (auto simp: record_effect_def)

lemma emits_bind:
  assumes m: "emits P m" and f: "\<And>a. emits P (f a)"
  shows "emits P (io_bind m f)"
proof (rule emitsI)
  fix w r w' assume run: "io_bind m f w = (r, w')"
  obtain r1 w1 where m1: "m w = (r1, w1)" by (cases "m w")
  from emitsD [OF m m1] obtain xs where xs: "effects w1 = effects w @ xs" "\<forall>x \<in> set xs. P x" .
  show "\<exists>xs. effects w' = effects w @ xs \<and> (\<forall>x \<in> set xs. P x)"
  proof (cases r1)
    case (Inl e)
    with run m1 have "w' = w1" by (simp add: io_bind_def)
    with xs show ?thesis by blast
  next
    case (Inr a)
    with run m1 have "f a w1 = (r, w')" by (simp add: io_bind_def)
    from emitsD [OF f this] obtain ys where "effects w' = effects w1 @ ys" "\<forall>x \<in> set ys. P x" .
    with xs have "effects w' = effects w @ (xs @ ys) \<and> (\<forall>x \<in> set (xs @ ys). P x)" by auto
    then show ?thesis by blast
  qed
qed

lemma emits_then: "emits P m \<Longrightarrow> emits P k \<Longrightarrow> emits P (io_then m k)"
  unfolding io_then_def by (rule emits_bind)

lemma emits_catch:
  assumes m: "emits P m" and h: "\<And>e. emits P (h e)"
  shows "emits P (io_catch m h)"
proof (rule emitsI)
  fix w r w' assume run: "io_catch m h w = (r, w')"
  obtain r1 w1 where m1: "m w = (r1, w1)" by (cases "m w")
  from emitsD [OF m m1] obtain xs where xs: "effects w1 = effects w @ xs" "\<forall>x \<in> set xs. P x" .
  show "\<exists>xs. effects w' = effects w @ xs \<and> (\<forall>x \<in> set xs. P x)"
  proof (cases r1)
    case (Inr a)
    with run m1 have "w' = w1" by (simp add: io_catch_def)
    with xs show ?thesis by blast
  next
    case (Inl x)
    show ?thesis
    proof (cases x)
      case Unsettled
      with Inl run m1 have "w' = w1" by (simp add: io_catch_def)
      with xs show ?thesis by blast
    next
      case (Throws e)
      with Inl run m1 have "h e w1 = (r, w')" by (simp add: io_catch_def)
      from emitsD [OF h this] obtain ys where
        "effects w' = effects w1 @ ys" "\<forall>x \<in> set ys. P x" .
      with xs have "effects w' = effects w @ (xs @ ys) \<and> (\<forall>x \<in> set (xs @ ys). P x)"
        by auto
      then show ?thesis by blast
    qed
  qed
qed

lemmas emits_intros =
  emits_return emits_throw emits_log emits_bind emits_then emits_catch

lemma emits_updateRound: "P (StoreCall (UpdateRound rid p)) \<Longrightarrow> emits P (updateRound env rid p)"
  unfolding updateRound_def
  by (intro emits_then emits_record emits_silent) (simp_all split: option.splits)

lemma emits_fs_mkdir: "P (FsCall (Mkdir p)) \<Longrightarrow> emits P (fs_mkdir env p)"
  unfolding fs_mkdir_def
  by (intro emits_then emits_record emits_silent) (simp_all split: option.splits fs_entry.splits)

lemma emits_fs_writeFile: "P (FsCall (WriteFile p b)) \<Longrightarrow> emits P (fs_writeFile env p b)"
  unfolding fs_writeFile_def
  by (intro emits_then emits_record emits_silent) (simp_all split: option.splits fs_entry.splits)

lemma emits_fs_readFile: "P (FsCall (ReadFile p)) \<Longrightarrow> emits P (fs_readFile env p)"
  unfolding fs_readFile_def
  by (intro emits_then emits_record emits_silent) (simp_all split: option.splits fs_entry.splits)

lemma emits_call_transcribeFile:
  "P (ProviderCall b opts) \<Longrightarrow> emits P (call_transcribeFile env b opts)"
  unfolding call_transcribeFile_def
  by (intro emits_then emits_record emits_silent) (simp_all split: provider_outcome.splits)

lemma emits_call_builder:
  "P (BuilderCall raw fn lang) \<Longrightarrow> emits P (call_createDeliberationOntology env raw fn lang)"
  unfolding call_createDeliberationOntology_def
  by (intro emits_then emits_record emits_silent)
     (simp_all add: io_settled_def split: sum.splits)

lemma emits_require_api_key: "emits P (require_api_key env)"
  unfolding require_api_key_def by (simp add: emits_return emits_throw)

lemma emits_saveTranscription:
  assumes "\<And>op. P (FsCall op)"
  shows "emits P (saveTranscription env rid raw d)"
  unfolding saveTranscription_def ensureDirectories_def Let_def
  by (intro emits_intros emits_fs_mkdir emits_fs_writeFile assms)

lemma emits_transcribe_checked:
  assumes "P (ProviderCall b (deepgram_options lang))"
  shows "emits P (transcribe_checked env b lang dbg)"
  unfolding transcribe_checked_def
  apply (rule emits_bind)
   apply (rule emits_call_transcribeFile, rule assms)
  apply (auto simp: Let_def split: option.splits prod.splits intro!: emits_intros)
  done

lemma emits_round_POST_process:
  "emits (try_call_ok (round_language rnd)) (round_POST_process env roundId rnd audioPath)"
  unfolding round_POST_process_def Let_def
  by (intro emits_intros emits_updateRound emits_fs_readFile emits_require_api_key
            emits_transcribe_checked emits_call_builder emits_saveTranscription)
     (simp_all add: status_patch_def completed_patch_round_def)

lemma emits_generic_POST_process:
  "emits (try_call_ok ''en'') (generic_POST_process env roundId audioFile filename)"
  unfolding generic_POST_process_def Let_def
  by (intro emits_intros emits_updateRound emits_require_api_key
            emits_transcribe_checked emits_call_builder emits_saveTranscription)
     (simp_all add: status_patch_def completed_patch_generic_def)

lemma emits_generic_POST_try: "emits (try_call_ok ''en'') (generic_POST_try env req)"
  unfolding generic_POST_try_def
  apply (rule emits_bind)
   apply (rule emits_silent, simp add: read_form_def io_settled_def split: sum.splits)
  apply (auto split: option.splits intro!: emits_intros emits_generic_POST_process)
  done

lemma emits_round_POST_found:
  "emits (try_call_ok (round_language rnd)) (round_POST_found env roundId rnd)"
proof (rule emitsI)
  fix w r w'
  assume run: "round_POST_found env roundId rnd w = (r, w')"
  let ?P = "try_call_ok (round_language rnd)"
  show "\<exists>xs. effects w' = effects w @ xs \<and> (\<forall>x \<in> set xs. ?P x)"
  proof (cases "audioFileExists env roundId w")
    case None
    have "emits ?P (io_then (log_msg Warn ''Audio file not found for round'')
            (io_return
               (JsonError 404 ''Audio file not found. Recording may not have completed yet.''
                  None)))"
      by (intro emits_intros)
    moreover from run None have "io_then (log_msg Warn ''Audio file not found for round'')
            (io_return
               (JsonError 404 ''Audio file not found. Recording may not have completed yet.''
                  None)) w = (r, w')"
      by (simp add: round_POST_found_def)
    ultimately show ?thesis by (rule emitsD) blast
  next
    case (Some audioPath)
    have "emits ?P (io_then (log_msg Info ''Found audio file'')
            (round_POST_process env roundId rnd audioPath))"
      by (intro emits_intros emits_round_POST_process)
    moreover from run Some have "io_then (log_msg Info ''Found audio file'')
            (round_POST_process env roundId rnd audioPath) w = (r, w')"
      by (simp add: round_POST_found_def)
    ultimately show ?thesis by (rule emitsD) blast
  qed
qed

lemma round_POST_try_issued:
  assumes "round_POST_try env roundId w = (res, w1)"
  shows "\<forall>x \<in> set (issued w w1). try_call_ok (lang_of_round w roundId) x"
proof -
  let ?P = "try_call_ok (lang_of_round w roundId)"
  obtain r0 w0 where g: "getRound env roundId w = (r0, w0)" by (cases "getRound env roundId w")
  then have e0: "effects w0 = effects w @ [StoreCall (GetRound roundId)]"
    by (auto simp: getRound_def io_then_apply record_effect_def split: if_splits)
  show ?thesis
  proof (cases r0)
    case (Inl e)
    with g assms have "w1 = w0" by (simp add: round_POST_try_def io_bind_def)
    with e0 show ?thesis by (simp add: issued_def)
  next
    case (Inr found)
    with g have found: "found = rounds w roundId"
      by (auto simp: getRound_def io_then_apply record_effect_def split: if_splits)
    show ?thesis
    proof (cases found)
      case None
      with g Inr assms have "effects w1 = effects w0"
        by (auto simp: round_POST_try_def io_bind_def io_then_apply log_msg_def io_return_def)
      with e0 show ?thesis by (simp add: issued_def)
    next
      case (Some rnd)
      with g Inr assms have "round_POST_found env roundId rnd w0 = (res, w1)"
        by (simp add: round_POST_try_def io_bind_def)
      from emitsD [OF emits_round_POST_found this] obtain xs where
        xs: "effects w1 = effects w0 @ xs" "\<forall>x \<in> set xs. try_call_ok (round_language rnd) x" .
      from Some found have "lang_of_round w roundId = round_language rnd"
        by (simp add: lang_of_round_def)
      with xs e0 show ?thesis by (simp add: issued_def)
    qed
  qed
qed

lemma generic_POST_try_issued:
  assumes "generic_POST_try env req w = (res, w1)"
  shows "\<forall>x \<in> set (issued w w1). try_call_ok ''en'' x"
proof -
  from emitsD [OF emits_generic_POST_try assms] obtain xs where
    "effects w1 = effects w @ xs" "\<forall>x \<in> set xs. try_call_ok ''en'' x" .
  then show ?thesis by (simp add: issued_def)
qed

lemma try_call_ok_not_error: "try_call_ok lang x \<Longrightarrow> \<not> is_error_update x"
  by (cases "(lang, x)" rule: try_call_ok.cases) simp_all

lemma issued_append:
  assumes "effects w1 = effects w @ xs" and "effects w' = effects w1 @ ys"
  shows "issued w w' = issued w w1 @ ys"
  using assms by (simp add: issued_def)

lemma effects_grow_round_try:
  assumes "round_POST_try env roundId w = (res, w1)"
  shows "\<exists>xs. effects w1 = effects w @ xs"
proof -
  obtain r0 w0 where g: "getRound env roundId w = (r0, w0)" by (cases "getRound env roundId w")
  then have e0: "effects w0 = effects w @ [StoreCall (GetRound roundId)]"
    by (auto simp: getRound_def io_then_apply record_effect_def split: if_splits)
  show ?thesis
  proof (cases r0)
    case (Inl e)
    with g assms have "w1 = w0" by (simp add: round_POST_try_def io_bind_def)
    with e0 show ?thesis by simp
  next
    case (Inr found)
    show ?thesis
    proof (cases found)
      case None
      with g Inr assms have "effects w1 = effects w0"
        by (auto simp: round_POST_try_def io_bind_def io_then_apply log_msg_def io_return_def)
      with e0 show ?thesis by simp
    next
      case (Some rnd)
      with g Inr assms have "round_POST_found env roundId rnd w0 = (res, w1)"
        by (simp add: round_POST_try_def io_bind_def)
      from emitsD [OF emits_round_POST_found this] obtain xs where
        "effects w1 = effects w0 @ xs" by blast
      with e0 show ?thesis by simp
    qed
  qed
qed

text \<open>
  The \<open>catch\<close> blocks of the two routes. Whenever the \<open>try\<close> block of a route throws,
  the handler answers with the 500 response built from the thrown value and never throws
  itself.
  The round route then issues exactly one update that sets the status to \<open>ERROR\<close>, as
  its last call. The generic route issues that update only when it can read the form
  data of the request again and finds a round id there; otherwise it issues none. When
  the store accepts the update the round is in \<open>ERROR\<close>; when it does not, the rounds
  stay as they were and the last log line is the warning
  \<open>Failed to update round status\<close>.
\<close>

theorem error_update_on_failure:
  "(round_POST_try env roundId w = (Inl (Throws e), w1) \<longrightarrow>
      (\<exists>w'. round_POST env roundId w = (Inr (failure_response e), w')
          \<and> issued w w' = issued w w1 @ [StoreCall (UpdateRound roundId (status_patch ERROR))]
          \<and> filter is_error_update (issued w w')
              = [StoreCall (UpdateRound roundId (status_patch ERROR))]
          \<and> (if error_update_accepted env roundId w1
              then map_option status (rounds w' roundId) = Some ERROR
              else rounds w' = rounds w1
                 \<and> last (logs w') = (Warn, ''Failed to update round status''))))
   \<and> (generic_POST_try env req w = (Inl (Throws e), w1) \<longrightarrow>
      (\<exists>w'. generic_POST env req w = (Inr (failure_response e), w')
          \<and> (case reread_roundId req of
                Some rid \<Rightarrow>
                  filter is_error_update (issued w w')
                    = [StoreCall (UpdateRound rid (status_patch ERROR))]
                  \<and> (if error_update_accepted env rid w1
                      then map_option status (rounds w' rid) = Some ERROR
                      else rounds w' = rounds w1
                         \<and> last (logs w') = (Warn, ''Failed to update round status''))
              | None \<Rightarrow>
                  filter is_error_update (issued w w') = [] \<and> rounds w' = rounds w1)))
   \<and> fst (round_POST env roundId w) \<noteq> Inl (Throws x)
   \<and> fst (generic_POST env req w) \<noteq> Inl (Throws x)"
  (is "(?run1 \<longrightarrow> ?goal1) \<and> (?run2 \<longrightarrow> ?goal2) \<and> ?total1 \<and> ?total2")
proof (intro conjI impI)
  assume run: ?run1
  let ?upd = "StoreCall (UpdateRound roundId (status_patch ERROR))"
  let ?w' = "snd (round_POST_catch env roundId e w1)"
  from effects_grow_round_try [OF run] obtain xs where xs: "effects w1 = effects w @ xs" ..
  from round_POST_try_issued [OF run] have "\<forall>x \<in> set (issued w w1). \<not> is_error_update x"
    using try_call_ok_not_error by blast
  then have none: "filter is_error_update (issued w w1) = []" by (simp add: filter_empty_conv)
  have post: "round_POST env roundId w = (Inr (failure_response e), ?w')"
    using run by (simp add: round_POST_def io_catch_def round_POST_catch_eq)
  have eff: "effects ?w' = effects w1 @ [?upd]"
    by (simp add: round_POST_catch_eq)
  from issued_append [OF xs eff] have iss: "issued w ?w' = issued w w1 @ [?upd]" .
  have fil: "filter is_error_update (issued w ?w') = [?upd]"
    by (simp add: iss none status_patch_def)
  have st: "if error_update_accepted env roundId w1
              then map_option status (rounds ?w' roundId) = Some ERROR
              else rounds ?w' = rounds w1
                 \<and> last (logs ?w') = (Warn, ''Failed to update round status'')"
    by (simp add: round_POST_catch_eq apply_patch_def status_patch_def)
  from post iss fil st show ?goal1 by blast
next
  assume run: ?run2
  let ?w' = "snd (generic_POST_catch env req e w1)"
  from emitsD [OF emits_generic_POST_try run] obtain xs where
    xs: "effects w1 = effects w @ xs" by blast
  from generic_POST_try_issued [OF run] have "\<forall>x \<in> set (issued w w1). \<not> is_error_update x"
    using try_call_ok_not_error by blast
  then have none: "filter is_error_update (issued w w1) = []" by (simp add: filter_empty_conv)
  have post: "generic_POST env req w = (Inr (failure_response e), ?w')"
    using run by (simp add: generic_POST_def io_catch_def generic_POST_catch_eq)
  have rest: "case reread_roundId req of
                Some rid \<Rightarrow>
                  filter is_error_update (issued w ?w')
                    = [StoreCall (UpdateRound rid (status_patch ERROR))]
                  \<and> (if error_update_accepted env rid w1
                      then map_option status (rounds ?w' rid) = Some ERROR
                      else rounds ?w' = rounds w1
                         \<and> last (logs ?w') = (Warn, ''Failed to update round status''))
              | None \<Rightarrow>
                  filter is_error_update (issued w ?w') = [] \<and> rounds ?w' = rounds w1"
  proof (cases "reread_roundId req")
    case None
    then have "effects ?w' = effects w1 @ []" "rounds ?w' = rounds w1"
      by (simp_all add: generic_POST_catch_eq split: sum.splits)
    with issued_append [OF xs this(1)] none None show ?thesis by simp
  next
    case (Some rid)
    then have eff: "effects ?w' = effects w1 @ [StoreCall (UpdateRound rid (status_patch ERROR))]"
      by (simp add: generic_POST_catch_eq)
    from issued_append [OF xs eff] none
    have "filter is_error_update (issued w ?w')
            = [StoreCall (UpdateRound rid (status_patch ERROR))]"
      by (simp add: status_patch_def)
    moreover have "if error_update_accepted env rid w1
                      then map_option status (rounds ?w' rid) = Some ERROR
                      else rounds ?w' = rounds w1
                         \<and> last (logs ?w') = (Warn, ''Failed to update round status'')"
      using Some by (simp add: generic_POST_catch_eq apply_patch_def status_patch_def)
    ultimately show ?thesis using Some by simp
  qed
  from post rest show ?goal2 by blast
next
  show ?total1
    by (cases "round_POST_try env roundId w")
       (auto simp: round_POST_def io_catch_def round_POST_catch_eq
             split: sum.splits abrupt.splits)
next
  show ?total2
    by (cases "generic_POST_try env req w")
       (auto simp: generic_POST_def io_catch_def generic_POST_catch_eq
             split: sum.splits abrupt.splits)
qed

lemmas eval_defs =
  route_defs io_defs sample_defs files_defs audioFileExists_find Let_def issued_def
  reread_roundId_def error_update_accepted_def

theorem error_update_on_failure_witness:
  "fst (round_POST_try nokey_env ''r1'' sample_world) = Inl (Throws nokey_error)
   \<and> fst (round_POST nokey_env ''r1'' sample_world) = Inr (failure_response nokey_error)
   \<and> filter is_error_update
        (issued sample_world (snd (round_POST nokey_env ''r1'' sample_world)))
       = [StoreCall (UpdateRound ''r1'' (status_patch ERROR))]
   \<and> map_option status (rounds (snd (round_POST nokey_env ''r1'' sample_world)) ''r1'')
       = Some ERROR
   \<and> fst (generic_POST_try nokey_env rereadable_request sample_world) = Inl (Throws nokey_error)
   \<and> fst (generic_POST nokey_env rereadable_request sample_world)
       = Inr (failure_response nokey_error)
   \<and> filter is_error_update
        (issued sample_world (snd (generic_POST nokey_env rereadable_request sample_world)))
       = [StoreCall (UpdateRound ''r1'' (status_patch ERROR))]"
proof -
  let ?t1 = "round_POST_try nokey_env ''r1'' sample_world"
  let ?t2 = "generic_POST_try nokey_env rereadable_request sample_world"
  let ?p1 = "round_POST nokey_env ''r1'' sample_world"
  let ?p2 = "generic_POST nokey_env rereadable_request sample_world"
  have f1: "fst ?t1 = Inl (Throws nokey_error)"
    by (simp add: eval_defs nokey_env_def nokey_error_def)
  have f2: "fst ?t2 = Inl (Throws nokey_error)"
    by (simp add: eval_defs nokey_env_def nokey_error_def rereadable_request_def)
  from f1 have t1: "?t1 = (Inl (Throws nokey_error), snd ?t1)" by (simp add: prod_eq_iff)
  from f2 have t2: "?t2 = (Inl (Throws nokey_error), snd ?t2)" by (simp add: prod_eq_iff)
  have acc: "error_update_accepted nokey_env ''r1'' (snd ?t1)"
    by (simp add: eval_defs nokey_env_def nokey_error_def)
  have rr: "reread_roundId rereadable_request = Some ''r1''"
    by (simp add: eval_defs rereadable_request_def)
  note inst = error_update_on_failure
    [of nokey_env "''r1''" sample_world nokey_error _ rereadable_request nokey_error]
  from inst [of "snd ?t1"] t1 acc obtain w' where
    a: "?p1 = (Inr (failure_response nokey_error), w')"
       "filter is_error_update (issued sample_world w')
          = [StoreCall (UpdateRound ''r1'' (status_patch ERROR))]"
       "map_option status (rounds w' ''r1'') = Some ERROR"
    by auto
  from inst [of "snd ?t2"] t2 rr obtain w'' where
    b: "?p2 = (Inr (failure_response nokey_error), w'')"
       "filter is_error_update (issued sample_world w'')
          = [StoreCall (UpdateRound ''r1'' (status_patch ERROR))]"
    by auto
  from a b f1 f2 show ?thesis by simp
qed

text \<open>
  C3 on the generic route. The request carries an audio file and a round id, and no API
  key is configured, so the run fails after it has written \<open>PROCESSING\<close>. The
  \<open>catch\<close> block cannot read the form data a second time, because the \<open>try\<close> block
  has consumed the body: it logs the warning, attempts no update to \<open>ERROR\<close>, and the
  round stays in \<open>PROCESSING\<close>. The round route, which has the round id in scope,
  attempts the update on every failure.
\<close>

theorem generic_route_skips_error_update:
  "fst (generic_POST nokey_env sample_request sample_world)
     = Inr (JsonError 500 ''DEEPGRAM_API_KEY not configured in environment variables''
              (Some ''Error: DEEPGRAM_API_KEY not configured in environment variables at POST''))
   \<and> issued sample_world (snd (generic_POST nokey_env sample_request sample_world))
       = [StoreCall (UpdateRound ''r1'' (status_patch PROCESSING))]
   \<and> filter is_error_update
        (issued sample_world (snd (generic_POST nokey_env sample_request sample_world))) = []
   \<and> map_option status (rounds (snd (generic_POST nokey_env sample_request sample_world)) ''r1'')
       = Some PROCESSING"
  by (simp add: eval_defs nokey_env_def)

section \<open>The language handed to the provider\<close>

lemma round_POST_cases:
  assumes "round_POST env roundId w = (res, w')"
  obtains (returned) a where "round_POST_try env roundId w = (Inr a, w')" and "res = Inr a"
  | (caught) e w1 where "round_POST_try env roundId w = (Inl (Throws e), w1)"
      and "res = Inr (failure_response e)"
      and "w' = snd (round_POST_catch env roundId e w1)"
  | (suspended) "round_POST_try env roundId w = (Inl Unsettled, w')" and "res = Inl Unsettled"
proof (cases "round_POST_try env roundId w")
  case (Pair r1 w1)
  show ?thesis
  proof (cases r1)
    case (Inr a)
    with Pair assms have "round_POST_try env roundId w = (Inr a, w')" "res = Inr a"
      by (auto simp: round_POST_def io_catch_def)
    then show ?thesis by (rule returned)
  next
    case (Inl x)
    show ?thesis
    proof (cases x)
      case (Throws e)
      with Inl Pair assms have "round_POST_try env roundId w = (Inl (Throws e), w1)"
        "res = Inr (failure_response e)" "w' = snd (round_POST_catch env roundId e w1)"
        by (auto simp: round_POST_def io_catch_def round_POST_catch_eq)
      then show ?thesis by (rule caught)
    next
      case Unsettled
      with Inl Pair assms have "round_POST_try env roundId w = (Inl Unsettled, w')" "res = Inl Unsettled"
        by (auto simp: round_POST_def io_catch_def)
      then show ?thesis by (rule suspended)
    qed
  qed
qed

lemma generic_POST_cases:
  assumes "generic_POST env req w = (res, w')"
  obtains (returned) a where "generic_POST_try env req w = (Inr a, w')" and "res = Inr a"
  | (caught) e w1 where "generic_POST_try env req w = (Inl (Throws e), w1)"
      and "res = Inr (failure_response e)"
      and "w' = snd (generic_POST_catch env req e w1)"
  | (suspended) "generic_POST_try env req w = (Inl Unsettled, w')" and "res = Inl Unsettled"
proof (cases "generic_POST_try env req w")
  case (Pair r1 w1)
  show ?thesis
  proof (cases r1)
    case (Inr a)
    with Pair assms have "generic_POST_try env req w = (Inr a, w')" "res = Inr a"
      by (auto simp: generic_POST_def io_catch_def)
    then show ?thesis by (rule returned)
  next
    case (Inl x)
    show ?thesis
    proof (cases x)
      case (Throws e)
      with Inl Pair assms have "generic_POST_try env req w = (Inl (Throws e), w1)"
        "res = Inr (failure_response e)" "w' = snd (generic_POST_catch env req e w1)"
        by (auto simp: generic_POST_def io_catch_def generic_POST_catch_eq)
      then show ?thesis by (rule caught)
    next
      case Unsettled
      with Inl Pair assms have "generic_POST_try env req w = (Inl Unsettled, w')" "res = Inl Unsettled"
        by (auto simp: generic_POST_def io_catch_def)
      then show ?thesis by (rule suspended)
    qed
  qed
qed

lemma round_POST_try_without_round:
  assumes "round_POST_try env roundId w = (res, w1)" and "rounds w roundId = None"
  shows "effects w1 = effects w @ [StoreCall (GetRound roundId)]"
  using assms
  by (auto simp: round_POST_try_def io_bind_def getRound_def io_then_apply record_effect_def
                 log_msg_def io_return_def
           split: if_splits)

lemma round_POST_provider_calls:
  assumes run: "round_POST env roundId w = (res, w')"
    and call: "ProviderCall b opts \<in> set (issued w w')"
  shows "\<exists>r. rounds w roundId = Some r \<and> opts = deepgram_options (round_language r)"
proof -
  from run obtain r1 w1 where t: "round_POST_try env roundId w = (r1, w1)"
    and w': "effects w' = effects w1
             \<or> effects w' = effects w1 @ [StoreCall (UpdateRound roundId (status_patch ERROR))]"
    by (cases rule: round_POST_cases) (auto simp: round_POST_catch_eq)
  from effects_grow_round_try [OF t] obtain xs where xs: "effects w1 = effects w @ xs" ..
  with w' call have c1: "ProviderCall b opts \<in> set (issued w w1)"
    by (auto simp: issued_def)
  show ?thesis
  proof (cases "rounds w roundId")
    case None
    from round_POST_try_without_round [OF t None] c1 show ?thesis by (simp add: issued_def)
  next
    case (Some r)
    from round_POST_try_issued [OF t] c1 have "try_call_ok (lang_of_round w roundId) (ProviderCall b opts)"
      by blast
    with Some show ?thesis by (simp add: lang_of_round_def)
  qed
qed

lemma generic_POST_provider_calls:
  assumes run: "generic_POST env req w = (res, w')"
    and call: "ProviderCall b opts \<in> set (issued w w')"
  shows "opts = deepgram_options ''en''"
proof -
  from run obtain r1 w1 where t: "generic_POST_try env req w = (r1, w1)"
    and w': "effects w' = effects w1
             \<or> (\<exists>rid. effects w' = effects w1 @ [StoreCall (UpdateRound rid (status_patch ERROR))])"
    by (cases rule: generic_POST_cases)
       (auto simp: generic_POST_catch_eq split: option.splits sum.splits)
  from emitsD [OF emits_generic_POST_try t] obtain xs where xs: "effects w1 = effects w @ xs"
    by blast
  with w' call have c1: "ProviderCall b opts \<in> set (issued w w1)"
    by (auto simp: issued_def)
  from generic_POST_try_issued [OF t] c1 have "try_call_ok ''en'' (ProviderCall b opts)"
    by blast
  then show ?thesis by simp
qed

text \<open>
  C10. Every provider call of the generic route carries the language \<open>en\<close>, whatever
  the round's language is. Every provider call of the round route is made for a stored
  round and carries that round's language, or \<open>en\<close> when the round has no language
  (the field is missing or the empty string).
\<close>

theorem provider_language:
  "(generic_POST env req w = (res, w') \<longrightarrow> ProviderCall b opts \<in> set (issued w w') \<longrightarrow>
       dg_language opts = ''en'')
   \<and> (round_POST env roundId w = (res, w') \<longrightarrow> ProviderCall b opts \<in> set (issued w w') \<longrightarrow>
       (\<exists>r. rounds w roundId = Some r
          \<and> dg_language opts =
              (case language r of None \<Rightarrow> ''en'' | Some l \<Rightarrow> if l = [] then ''en'' else l)))"
proof (intro conjI impI)
  assume "generic_POST env req w = (res, w')" and "ProviderCall b opts \<in> set (issued w w')"
  then have "opts = deepgram_options ''en''" by (rule generic_POST_provider_calls)
  then show "dg_language opts = ''en''" by (simp add: deepgram_options_def)
next
  assume "round_POST env roundId w = (res, w')" and "ProviderCall b opts \<in> set (issued w w')"
  then obtain r where r: "rounds w roundId = Some r" "opts = deepgram_options (round_language r)"
    using round_POST_provider_calls by blast
  have "dg_language (deepgram_options (round_language r)) =
          (case language r of None \<Rightarrow> ''en'' | Some l \<Rightarrow> if l = [] then ''en'' else l)"
    by (simp add: deepgram_options_def round_language_def truthy_string_def split: option.splits)
  with r show "\<exists>r. rounds w roundId = Some r
          \<and> dg_language opts =
              (case language r of None \<Rightarrow> ''en'' | Some l \<Rightarrow> if l = [] then ''en'' else l)"
    by blast
qed

theorem provider_language_witness:
  "language sample_round = Some ''it''
   \<and> ProviderCall [7, 7] (deepgram_options ''en'')
       \<in> set (issued sample_world (snd (generic_POST sample_env sample_request sample_world)))
   \<and> dg_language (deepgram_options ''en'') = ''en''
   \<and> ProviderCall [7, 7] (deepgram_options ''it'')
       \<in> set (issued sample_world (snd (round_POST sample_env ''r1'' sample_world)))
   \<and> dg_language (deepgram_options ''it'') = ''it''"
proof -
  let ?g = "generic_POST sample_env sample_request sample_world"
  let ?r = "round_POST sample_env ''r1'' sample_world"
  have g: "ProviderCall [7, 7] (deepgram_options ''en'') \<in> set (issued sample_world (snd ?g))"
    by (simp add: eval_defs)
  have r: "ProviderCall [7, 7] (deepgram_options ''it'') \<in> set (issued sample_world (snd ?r))"
    by (simp add: eval_defs)
  have l: "language sample_round = Some ''it''" by (simp add: sample_round_def)
  have w: "rounds sample_world ''r1'' = Some sample_round" by (simp add: sample_world_def)
  from provider_language
    [of sample_env sample_request sample_world "fst ?g" "snd ?g" "[7, 7]"
        "deepgram_options ''en''"] g
  have a: "dg_language (deepgram_options ''en'') = ''en''" by simp
  from provider_language
    [of sample_env _ sample_world "fst ?r" "snd ?r" "[7, 7]" "deepgram_options ''it''" "''r1''"] r
  have "\<exists>r. rounds sample_world ''r1'' = Some r
          \<and> dg_language (deepgram_options ''it'') =
              (case language r of None \<Rightarrow> ''en'' | Some l \<Rightarrow> if l = [] then ''en'' else l)"
    by simp
  with w l have b: "dg_language (deepgram_options ''it'') = ''it''" by simp
  from l g a r b show ?thesis by blast
qed

section \<open>The failure responses\<close>

lemma round_POST_try_JsonError:
  assumes "round_POST_try env roundId w = (Inr (JsonError st msg det), w')"
  shows "st = 404 \<and> det = None
       \<and> (msg = ''Round not found''
          \<or> msg = ''Audio file not found. Recording may not have completed yet.'')"
proof -
  from round_POST_try_Inr [OF assms] show ?thesis
  proof (elim disjE exE conjE)
    fix rnd audioPath w1
    assume "round_POST_process env roundId rnd audioPath w1 = (Inr (JsonError st msg det), w')"
    from round_POST_process_Inr [OF this] show ?thesis by auto
  qed simp_all
qed

lemma generic_POST_try_JsonError:
  assumes "generic_POST_try env req w = (Inr (JsonError st msg det), w')"
  shows "st = 400 \<and> det = None
       \<and> (msg = ''No audio file provided'' \<or> msg = ''Round ID is required'')"
proof -
  from generic_POST_try_Inr [OF assms] obtain fd where
    "(form_audio fd = None \<and> JsonError st msg det = JsonError 400 ''No audio file provided'' None
            \<and> effects w' = effects w \<and> rounds w' = rounds w \<and> entries w' = entries w)
       \<or> (form_audio fd \<noteq> None \<and> \<not> truthy_string (form_roundId fd)
            \<and> JsonError st msg det = JsonError 400 ''Round ID is required'' None
            \<and> effects w' = effects w \<and> rounds w' = rounds w \<and> entries w' = entries w)
       \<or> (\<exists>audioFile roundId. form_audio fd = Some audioFile \<and> form_roundId fd = Some roundId
            \<and> roundId \<noteq> []
            \<and> generic_POST_process env roundId audioFile (form_filename_or_default fd) w
                = (Inr (JsonError st msg det), w'))"
    by blast
  then show ?thesis
  proof (elim disjE exE conjE)
    fix audioFile roundId
    assume "generic_POST_process env roundId audioFile (form_filename_or_default fd) w
                = (Inr (JsonError st msg det), w')"
    from generic_POST_process_Inr [OF this] show ?thesis by auto
  qed simp_all
qed

text \<open>
  C8, as the code has it. The early rejections (404 on the round route, 400 on the
  generic route) carry a message only. Every other failure response has status 500 and
  is built from the value the \<open>try\<close> block threw: its \<open>error\<close> member is the
  message of that value and its \<open>details\<close> member is the stack trace of that value
  when it is an \<open>Error\<close>; for any other thrown value the message is
  \<open>Transcription failed\<close> and \<open>details\<close> is left out.
\<close>

theorem failure_response_body:
  "(round_POST env roundId w = (Inr (JsonError st msg det), w') \<longrightarrow>
      (st = 404 \<and> det = None)
      \<or> (\<exists>e w1. round_POST_try env roundId w = (Inl (Throws e), w1) \<and> st = 500
            \<and> msg = (case e of ErrorObj m s \<Rightarrow> m | NonError v \<Rightarrow> ''Transcription failed'')
            \<and> det = (case e of ErrorObj m s \<Rightarrow> Some s | NonError v \<Rightarrow> None)))
   \<and> (generic_POST env req w = (Inr (JsonError st msg det), w') \<longrightarrow>
      (st = 400 \<and> det = None)
      \<or> (\<exists>e w1. generic_POST_try env req w = (Inl (Throws e), w1) \<and> st = 500
            \<and> msg = (case e of ErrorObj m s \<Rightarrow> m | NonError v \<Rightarrow> ''Transcription failed'')
            \<and> det = (case e of ErrorObj m s \<Rightarrow> Some s | NonError v \<Rightarrow> None)))"
proof (intro conjI impI)
  assume run: "round_POST env roundId w = (Inr (JsonError st msg det), w')"
  then show "(st = 404 \<and> det = None)
      \<or> (\<exists>e w1. round_POST_try env roundId w = (Inl (Throws e), w1) \<and> st = 500
            \<and> msg = (case e of ErrorObj m s \<Rightarrow> m | NonError v \<Rightarrow> ''Transcription failed'')
            \<and> det = (case e of ErrorObj m s \<Rightarrow> Some s | NonError v \<Rightarrow> None))"
  proof (cases rule: round_POST_cases)
    case (returned a)
    then have "round_POST_try env roundId w = (Inr (JsonError st msg det), w')" by simp
    from round_POST_try_JsonError [OF this] show ?thesis by simp
  next
    case (caught e w1)
    then show ?thesis by (auto simp: failure_response_def)
  next
    case suspended
    then show ?thesis by simp
  qed
next
  assume run: "generic_POST env req w = (Inr (JsonError st msg det), w')"
  then show "(st = 400 \<and> det = None)
      \<or> (\<exists>e w1. generic_POST_try env req w = (Inl (Throws e), w1) \<and> st = 500
            \<and> msg = (case e of ErrorObj m s \<Rightarrow> m | NonError v \<Rightarrow> ''Transcription failed'')
            \<and> det = (case e of ErrorObj m s \<Rightarrow> Some s | NonError v \<Rightarrow> None))"
  proof (cases rule: generic_POST_cases)
    case (returned a)
    then have "generic_POST_try env req w = (Inr (JsonError st msg det), w')" by simp
    from generic_POST_try_JsonError [OF this] show ?thesis by simp
  next
    case (caught e w1)
    then show ?thesis by (auto simp: failure_response_def)
  next
    case suspended
    then show ?thesis by simp
  qed
qed

theorem failure_response_body_witness:
  "fst (round_POST sample_env ''r1'' no_audio_world)
     = Inr (JsonError 404 ''Audio file not found. Recording may not have completed yet.'' None)
   \<and> fst (generic_POST nokey_env sample_request sample_world)
     = Inr (JsonError 500 ''DEEPGRAM_API_KEY not configured in environment variables''
              (Some ''Error: DEEPGRAM_API_KEY not configured in environment variables at POST''))
   \<and> (\<exists>e. fst (generic_POST_try nokey_env sample_request sample_world) = Inl (Throws e)
          \<and> (case e of ErrorObj m s \<Rightarrow> Some s | NonError v \<Rightarrow> None)
              = Some ''Error: DEEPGRAM_API_KEY not configured in environment variables at POST'')"
proof -
  let ?a = "round_POST sample_env ''r1'' no_audio_world"
  let ?b = "generic_POST nokey_env sample_request sample_world"
  let ?m = "''DEEPGRAM_API_KEY not configured in environment variables''"
  let ?s = "''Error: DEEPGRAM_API_KEY not configured in environment variables at POST''"
  have fa: "fst ?a = Inr (JsonError 404
              ''Audio file not found. Recording may not have completed yet.'' None)"
    by (simp add: eval_defs no_audio_world_def)
  have fb: "fst ?b = Inr (JsonError 500 ?m (Some ?s))"
    by (simp add: eval_defs nokey_env_def)
  then have b: "?b = (Inr (JsonError 500 ?m (Some ?s)), snd ?b)" by (simp add: prod_eq_iff)
  note inst = failure_response_body
    [of nokey_env "''r1''" sample_world 500 ?m "Some ?s" "snd ?b" sample_request]
  from inst [THEN conjunct2, THEN mp, OF b]
  have "\<exists>e w1. generic_POST_try nokey_env sample_request sample_world = (Inl (Throws e), w1)
          \<and> Some ?s = (case e of ErrorObj m s \<Rightarrow> Some s | NonError v \<Rightarrow> None)"
    by simp blast
  then have "\<exists>e. fst (generic_POST_try nokey_env sample_request sample_world) = Inl (Throws e)
          \<and> (case e of ErrorObj m s \<Rightarrow> Some s | NonError v \<Rightarrow> None) = Some ?s"
    by force
  with fa fb show ?thesis by blast
qed

text \<open>
  C8 as stated fails: with no API key configured the round route throws an
  \<open>Error\<close>, and the body of its 500 response carries that error's stack trace in
  \<open>details\<close>.
\<close>

theorem stack_trace_in_response:
  "fst (round_POST_try nokey_env ''r1'' sample_world) = Inl (Throws nokey_error)
   \<and> fst (round_POST nokey_env ''r1'' sample_world)
       = Inr (JsonError 500 (message nokey_error) (Some (stack nokey_error)))"
  by (simp add: eval_defs nokey_env_def nokey_error_def)

section \<open>The early rejections\<close>

lemma apply_status_patch: "apply_patch (status_patch s) r = r\<lparr>status := s\<rparr>"
  by (cases r) (simp add: apply_patch_def status_patch_def no_patch_def)

lemma audioFileExists_effects [simp]:
  "audioFileExists env roundId (w\<lparr>effects := x\<rparr>) = audioFileExists env roundId w"
  by (rule audioFileExists_entries) simp

lemma audioFileExists_logs [simp]:
  "audioFileExists env roundId (w\<lparr>logs := x\<rparr>) = audioFileExists env roundId w"
  by (rule audioFileExists_entries) simp

lemma audioFileExists_rounds [simp]:
  "audioFileExists env roundId (w\<lparr>rounds := x\<rparr>) = audioFileExists env roundId w"
  by (rule audioFileExists_entries) simp

text \<open>
  C6, as the code has it. When no round is stored under the id, and when a round is
  stored but no audio file is, the round route answers 404 with a message only (\<open>Round
  not found\<close>, respectively \<open>Audio file not found. Recording may not have completed
  yet.\<close>). In both cases the only call it has issued is the read of the round: the
  provider is not invoked and no round is written.
\<close>

theorem early_rejections:
  "(\<not> store_fails env (GetRound roundId) \<longrightarrow> rounds w roundId = None \<longrightarrow>
      round_POST env roundId w =
        (Inr (JsonError 404 ''Round not found'' None),
         w\<lparr>effects := effects w @ [StoreCall (GetRound roundId)],
           logs := logs w @ [(Warn, ''Round not found'')]\<rparr>))
   \<and> (\<not> store_fails env (GetRound roundId) \<longrightarrow> rounds w roundId \<noteq> None \<longrightarrow>
      audioFileExists env roundId w = None \<longrightarrow>
      round_POST env roundId w =
        (Inr (JsonError 404 ''Audio file not found. Recording may not have completed yet.''
                None),
         w\<lparr>effects := effects w @ [StoreCall (GetRound roundId)],
           logs := logs w @ [(Warn, ''Audio file not found for round'')]\<rparr>))"
  by (auto simp: round_POST_def round_POST_try_def round_POST_found_def io_catch_def
                 io_bind_def getRound_def io_then_apply record_effect_def log_msg_def
                 io_return_def)

theorem early_rejections_witness:
  "fst (round_POST sample_env ''r1'' empty_world) = Inr (JsonError 404 ''Round not found'' None)
   \<and> issued empty_world (snd (round_POST sample_env ''r1'' empty_world))
       = [StoreCall (GetRound ''r1'')]
   \<and> fst (round_POST sample_env ''r1'' no_audio_world)
       = Inr (JsonError 404 ''Audio file not found. Recording may not have completed yet.''
                None)
   \<and> issued no_audio_world (snd (round_POST sample_env ''r1'' no_audio_world))
       = [StoreCall (GetRound ''r1'')]
   \<and> rounds (snd (round_POST sample_env ''r1'' no_audio_world)) = rounds no_audio_world"
proof -
  have ok: "\<not> store_fails sample_env (GetRound ''r1'')" by (simp add: sample_env_def)
  have none: "rounds empty_world ''r1'' = None" by (simp add: empty_world_def)
  have some: "rounds no_audio_world ''r1'' \<noteq> None"
    by (simp add: no_audio_world_def sample_world_def)
  have noaudio: "audioFileExists sample_env ''r1'' no_audio_world = None"
    by (simp add: eval_defs no_audio_world_def)
  from early_rejections [of sample_env "''r1''" empty_world, THEN conjunct1] ok none
  have a: "round_POST sample_env ''r1'' empty_world =
        (Inr (JsonError 404 ''Round not found'' None),
         empty_world\<lparr>effects := effects empty_world @ [StoreCall (GetRound ''r1'')],
           logs := logs empty_world @ [(Warn, ''Round not found'')]\<rparr>)"
    by blast
  from early_rejections [of sample_env "''r1''" no_audio_world, THEN conjunct2] ok some noaudio
  have b: "round_POST sample_env ''r1'' no_audio_world =
        (Inr (JsonError 404 ''Audio file not found. Recording may not have completed yet.''
                None),
         no_audio_world\<lparr>effects := effects no_audio_world @ [StoreCall (GetRound ''r1'')],
           logs := logs no_audio_world @ [(Warn, ''Audio file not found for round'')]\<rparr>)"
    by blast
  show ?thesis unfolding a b by (simp add: issued_def)
qed

text \<open>
  C6 as stated fails in its second half: for a stored round without an audio file the
  response has status 404, which reports not-found, not a failed precondition.
\<close>

theorem missing_audio_reported_as_not_found:
  "rounds no_audio_world ''r1'' = Some sample_round
   \<and> audioFileExists sample_env ''r1'' no_audio_world = None
   \<and> fst (round_POST sample_env ''r1'' no_audio_world)
       = Inr (JsonError 404 ''Audio file not found. Recording may not have completed yet.''
                None)
   \<and> reports_NotFoundError
        (JsonError 404 ''Audio file not found. Recording may not have completed yet.'' None)
   \<and> \<not> reports_PreconditionError
        (JsonError 404 ''Audio file not found. Recording may not have completed yet.'' None)"
  by (simp add: eval_defs no_audio_world_def reports_NotFoundError_def
                reports_PreconditionError_def)

section \<open>Running the steps that succeed\<close>

lemma io_bind_Inr: "m w = (Inr a, w1) \<Longrightarrow> io_bind m f w = f a w1"
  by (simp add: io_bind_def)

lemma io_bind_Inl: "m w = (Inl e, w1) \<Longrightarrow> io_bind m f w = (Inl e, w1)"
  by (simp add: io_bind_def)

lemma io_then_Inr: "m w = (Inr (), w1) \<Longrightarrow> io_then m k w = k w1"
  by (simp add: io_then_apply)

lemma getRound_ok:
  "\<not> store_fails env (GetRound rid) \<Longrightarrow>
   getRound env rid w = (Inr (rounds w rid), w\<lparr>effects := effects w @ [StoreCall (GetRound rid)]\<rparr>)"
  by (simp add: getRound_def io_then_apply record_effect_def)

lemma updateRound_ok:
  "\<not> store_fails env (UpdateRound rid p) \<Longrightarrow> rounds w rid = Some r \<Longrightarrow>
   updateRound env rid p w =
     (Inr (apply_patch p r),
      w\<lparr>rounds := (rounds w)(rid \<mapsto> apply_patch p r),
        effects := effects w @ [StoreCall (UpdateRound rid p)]\<rparr>)"
  by (simp add: updateRound_def io_then_apply record_effect_def)

lemma fs_readFile_ok:
  "\<not> fs_fails env (ReadFile p) \<Longrightarrow> entries w p = Some (File b) \<Longrightarrow>
   fs_readFile env p w = (Inr b, w\<lparr>effects := effects w @ [FsCall (ReadFile p)]\<rparr>)"
  by (simp add: fs_readFile_def io_then_apply record_effect_def)

lemma require_api_key_ok:
  "truthy_string (DEEPGRAM_API_KEY env) \<Longrightarrow> require_api_key env w = (Inr (), w)"
  by (simp add: require_api_key_def io_return_def)

section \<open>The stored status is not consulted\<close>

lemma fun_upd_eq_iff:
  "(f1(k := a) = f2(k := b)) \<longleftrightarrow> (\<forall>j. j \<noteq> k \<longrightarrow> f1 j = f2 j) \<and> a = b"
  by (auto simp: fun_eq_iff)

lemma rel_option_same_but_status:
  "rel_option same_but_status x y \<longleftrightarrow>
     map_option (\<lambda>r. r\<lparr>status := CREATED\<rparr>) x = map_option (\<lambda>r. r\<lparr>status := CREATED\<rparr>) y"
  by (cases x; cases y) (simp_all add: same_but_status_def)

lemma forget_status_eq_iff:
  "forget_status rid w1 = forget_status rid w2 \<longleftrightarrow>
     entries w1 = entries w2 \<and> effects w1 = effects w2 \<and> logs w1 = logs w2
     \<and> (\<forall>k. k \<noteq> rid \<longrightarrow> rounds w1 k = rounds w2 k)
     \<and> rel_option same_but_status (rounds w1 rid) (rounds w2 rid)"
  unfolding forget_status_def rel_option_same_but_status
  by (cases w1, cases w2) (simp add: fun_upd_eq_iff conj_ac)

lemma status_blindI:
  assumes "\<And>w1 w2. forget_status rid w1 = forget_status rid w2 \<Longrightarrow>
             rel_sum (=) A (fst (m w1)) (fst (m w2))
             \<and> forget_status rid (snd (m w1)) = forget_status rid (snd (m w2))"
  shows "status_blind rid A m"
  using assms unfolding status_blind_def by blast

lemma status_blindD:
  assumes "status_blind rid A m" and "forget_status rid w1 = forget_status rid w2"
  shows "rel_sum (=) A (fst (m w1)) (fst (m w2))"
    and "forget_status rid (snd (m w1)) = forget_status rid (snd (m w2))"
  using assms unfolding status_blind_def by blast+

lemma same_but_status_language: "same_but_status a b \<Longrightarrow> language a = language b"
proof -
  assume "same_but_status a b"
  then have "language (a\<lparr>status := CREATED\<rparr>) = language (b\<lparr>status := CREATED\<rparr>)"
    unfolding same_but_status_def by (rule arg_cong)
  then show ?thesis by simp
qed

lemma apply_patch_same_but_status:
  assumes "same_but_status a b"
  shows "same_but_status (apply_patch p a) (apply_patch p b)"
proof -
  obtain i n d l s au t du sc c where a: "a = \<lparr>round_id = i, name = n, description = d,
      language = l, status = s, audio_file = au, transcription_file = t,
      duration_seconds = du, speaker_count = sc, created_at = c\<rparr>"
    by (cases a) simp
  obtain i' n' d' l' s' au' t' du' sc' c' where b: "b = \<lparr>round_id = i', name = n',
      description = d', language = l', status = s', audio_file = au',
      transcription_file = t', duration_seconds = du', speaker_count = sc', created_at = c'\<rparr>"
    by (cases b) simp
  from assms show ?thesis
    unfolding a b same_but_status_def apply_patch_def by (simp split: option.splits)
qed

lemma blind_return: "A a a \<Longrightarrow> status_blind rid A (io_return a)"
  by (rule status_blindI) (simp add: io_return_def)

lemma blind_throw: "status_blind rid A (io_throw e)"
  by (rule status_blindI) (simp add: io_throw_def)

lemma blind_log: "status_blind rid (=) (log_msg lvl s)"
  by (rule status_blindI) (simp add: log_msg_def forget_status_eq_iff)

lemma blind_bind_rel:
  assumes m: "status_blind rid A m"
    and same: "\<And>a b. A a b \<Longrightarrow> f a = f b"
    and f: "\<And>a. status_blind rid B (f a)"
  shows "status_blind rid B (io_bind m f)"
proof (rule status_blindI)
  fix w1 w2 assume eq: "forget_status rid w1 = forget_status rid w2"
  obtain r1 v1 where m1: "m w1 = (r1, v1)" by (cases "m w1")
  obtain r2 v2 where m2: "m w2 = (r2, v2)" by (cases "m w2")
  from status_blindD [OF m eq] m1 m2
  have rel: "rel_sum (=) A r1 r2" and eq': "forget_status rid v1 = forget_status rid v2"
    by simp_all
  show "rel_sum (=) B (fst (io_bind m f w1)) (fst (io_bind m f w2))
        \<and> forget_status rid (snd (io_bind m f w1)) = forget_status rid (snd (io_bind m f w2))"
  proof (cases r1)
    case (Inl e)
    with rel have "r2 = Inl e" by (cases r2) simp_all
    with Inl m1 m2 eq' show ?thesis by (simp add: io_bind_def)
  next
    case (Inr a)
    with rel obtain b where b: "r2 = Inr b" "A a b" by (cases r2) simp_all
    from same [OF b(2)] have "f b = f a" by simp
    with Inr b m1 m2 status_blindD [OF f eq', of a] show ?thesis
      by (simp add: io_bind_def)
  qed
qed

lemma blind_bind:
  assumes "status_blind rid (=) m" and "\<And>a. status_blind rid B (f a)"
  shows "status_blind rid B (io_bind m f)"
  using assms(1) _ assms(2) by (rule blind_bind_rel) simp

lemma blind_bind_any:
  assumes "status_blind rid (\<lambda>a b. True) m" and "status_blind rid B k"
  shows "status_blind rid B (io_bind m (\<lambda>_. k))"
  using assms(1) _ assms(2) by (rule blind_bind_rel) simp

lemma blind_then:
  assumes "status_blind rid (=) m" and "status_blind rid B k"
  shows "status_blind rid B (io_then m k)"
  unfolding io_then_def using assms by (intro blind_bind)

lemma blind_catch:
  assumes m: "status_blind rid A m" and h: "\<And>e. status_blind rid A (h e)"
  shows "status_blind rid A (io_catch m h)"
proof (rule status_blindI)
  fix w1 w2 assume eq: "forget_status rid w1 = forget_status rid w2"
  obtain r1 v1 where m1: "m w1 = (r1, v1)" by (cases "m w1")
  obtain r2 v2 where m2: "m w2 = (r2, v2)" by (cases "m w2")
  from status_blindD [OF m eq] m1 m2
  have rel: "rel_sum (=) A r1 r2" and eq': "forget_status rid v1 = forget_status rid v2"
    by simp_all
  show "rel_sum (=) A (fst (io_catch m h w1)) (fst (io_catch m h w2))
        \<and> forget_status rid (snd (io_catch m h w1)) = forget_status rid (snd (io_catch m h w2))"
  proof (cases r1)
    case (Inl x)
    with rel have r2: "r2 = Inl x" by (cases r2) simp_all
    show ?thesis
    proof (cases x)
      case Unsettled
      with Inl r2 m1 m2 eq' show ?thesis by (simp add: io_catch_def)
    next
      case (Throws e)
      with Inl r2 m1 m2 status_blindD [OF h eq', of e] show ?thesis
        by (simp add: io_catch_def)
    qed
  next
    case (Inr a)
    with rel obtain b where b: "r2 = Inr b" "A a b" by (cases r2) simp_all
    with Inr m1 m2 eq' show ?thesis by (simp add: io_catch_def)
  qed
qed

lemma blind_getRound: "status_blind rid (rel_option same_but_status) (getRound env rid)"
  by (rule status_blindI)
     (simp add: getRound_def io_then_apply record_effect_def forget_status_eq_iff)

lemma blind_updateRound: "status_blind rid (\<lambda>a b. True) (updateRound env rid p)"
proof (rule status_blindI)
  fix w1 w2 assume "forget_status rid w1 = forget_status rid w2"
  then have eq: "entries w1 = entries w2" "effects w1 = effects w2" "logs w1 = logs w2"
    "\<forall>k. k \<noteq> rid \<longrightarrow> rounds w1 k = rounds w2 k"
    and rel: "rel_option same_but_status (rounds w1 rid) (rounds w2 rid)"
    by (simp_all add: forget_status_eq_iff)
  show "rel_sum (=) (\<lambda>a b. True) (fst (updateRound env rid p w1)) (fst (updateRound env rid p w2))
        \<and> forget_status rid (snd (updateRound env rid p w1))
            = forget_status rid (snd (updateRound env rid p w2))"
  proof (cases "rounds w1 rid")
    case None
    with rel have "rounds w2 rid = None" by (cases "rounds w2 rid") simp_all
    with None eq show ?thesis
      by (simp add: updateRound_def io_then_apply record_effect_def forget_status_eq_iff)
  next
    case (Some a)
    with rel obtain b where b: "rounds w2 rid = Some b" "same_but_status a b"
      by (cases "rounds w2 rid") simp_all
    from apply_patch_same_but_status [OF b(2)] Some b eq show ?thesis
      by (simp add: updateRound_def io_then_apply record_effect_def forget_status_eq_iff)
  qed
qed

lemma blind_fs_mkdir: "status_blind rid (=) (fs_mkdir env p)"
  by (rule status_blindI)
     (auto simp: fs_mkdir_def io_then_apply record_effect_def forget_status_eq_iff
           split: option.splits fs_entry.splits)

lemma blind_fs_writeFile: "status_blind rid (=) (fs_writeFile env p b)"
  by (rule status_blindI)
     (auto simp: fs_writeFile_def io_then_apply record_effect_def forget_status_eq_iff
           split: option.splits fs_entry.splits)

lemma blind_fs_readFile: "status_blind rid (=) (fs_readFile env p)"
  by (rule status_blindI)
     (auto simp: fs_readFile_def io_then_apply record_effect_def forget_status_eq_iff
           split: option.splits fs_entry.splits)

lemma blind_call_transcribeFile: "status_blind rid (=) (call_transcribeFile env b opts)"
  by (rule status_blindI)
     (auto simp: call_transcribeFile_def io_then_apply record_effect_def forget_status_eq_iff
           split: provider_outcome.splits)

lemma blind_call_builder:
  "status_blind rid (=) (call_createDeliberationOntology env raw fn lang)"
  by (rule status_blindI)
     (auto simp: call_createDeliberationOntology_def io_then_apply record_effect_def
                 io_settled_def forget_status_eq_iff sum.rel_eq
           split: sum.splits)

lemma blind_require_api_key: "status_blind rid (=) (require_api_key env)"
  unfolding require_api_key_def by (simp add: blind_return blind_throw)

lemmas blind_intros =
  blind_return blind_throw blind_log blind_bind blind_then blind_catch

lemma blind_saveTranscription: "status_blind rid (=) (saveTranscription env roundId raw d)"
  unfolding saveTranscription_def ensureDirectories_def Let_def
  by (intro blind_intros blind_fs_mkdir blind_fs_writeFile) simp

lemma blind_transcribe_checked: "status_blind rid (=) (transcribe_checked env b lang dbg)"
  unfolding transcribe_checked_def
  apply (rule blind_bind)
   apply (rule blind_call_transcribeFile)
  apply (auto simp: Let_def split: option.splits prod.splits intro!: blind_intros)
  done

lemma blind_round_POST_process:
  "status_blind rid (=) (round_POST_process env rid rnd audioPath)"
  unfolding round_POST_process_def Let_def
  by (intro blind_bind_any blind_updateRound blind_intros blind_fs_readFile
            blind_require_api_key blind_transcribe_checked blind_call_builder
            blind_saveTranscription) simp

lemma blind_round_POST_found: "status_blind rid (=) (round_POST_found env rid rnd)"
proof (rule status_blindI)
  fix w1 w2 assume eq: "forget_status rid w1 = forget_status rid w2"
  then have "entries w2 = entries w1" by (simp add: forget_status_eq_iff)
  then have afe: "audioFileExists env rid w2 = audioFileExists env rid w1"
    by (rule audioFileExists_entries)
  let ?m = "round_POST_found env rid rnd"
  show "rel_sum (=) (=) (fst (?m w1)) (fst (?m w2))
        \<and> forget_status rid (snd (?m w1)) = forget_status rid (snd (?m w2))"
  proof (cases "audioFileExists env rid w1")
    case None
    have "status_blind rid (=)
            (io_then (log_msg Warn ''Audio file not found for round'')
               (io_return
                  (JsonError 404 ''Audio file not found. Recording may not have completed yet.''
                     None)))"
      by (intro blind_intros) simp
    from status_blindD [OF this eq] None afe show ?thesis
      by (simp add: round_POST_found_def)
  next
    case (Some audioPath)
    have "status_blind rid (=)
            (io_then (log_msg Info ''Found audio file'')
               (round_POST_process env rid rnd audioPath))"
      by (intro blind_intros blind_round_POST_process)
    from status_blindD [OF this eq] Some afe show ?thesis
      by (simp add: round_POST_found_def)
  qed
qed

lemma round_POST_found_same_but_status:
  assumes "same_but_status a b"
  shows "round_POST_found env rid a = round_POST_found env rid b"
proof -
  from assms have "round_language a = round_language b"
    by (simp add: round_language_def same_but_status_language)
  then have p: "round_POST_process env rid a = round_POST_process env rid b"
    by (intro ext) (simp add: round_POST_process_def)
  show ?thesis by (intro ext, unfold round_POST_found_def, subst p, rule refl)
qed

lemma blind_round_POST_try: "status_blind rid (=) (round_POST_try env rid)"
  unfolding round_POST_try_def
proof (rule blind_bind_rel [OF blind_getRound])
  fix a b :: "round option"
  assume "rel_option same_but_status a b"
  then show "(case a of
         None \<Rightarrow>
           io_then (log_msg Warn ''Round not found'')
             (io_return (JsonError 404 ''Round not found'' None))
       | Some rnd \<Rightarrow> round_POST_found env rid rnd)
     = (case b of
         None \<Rightarrow>
           io_then (log_msg Warn ''Round not found'')
             (io_return (JsonError 404 ''Round not found'' None))
       | Some rnd \<Rightarrow> round_POST_found env rid rnd)"
    by (cases a; cases b) (simp_all add: round_POST_found_same_but_status)
next
  fix a :: "round option"
  show "status_blind rid (=) (case a of
         None \<Rightarrow>
           io_then (log_msg Warn ''Round not found'')
             (io_return (JsonError 404 ''Round not found'' None))
       | Some rnd \<Rightarrow> round_POST_found env rid rnd)"
    by (cases a) (auto intro!: blind_intros blind_round_POST_found)
qed

lemma blind_round_POST_catch: "status_blind rid (=) (round_POST_catch env rid e)"
  unfolding round_POST_catch_def
  by (intro blind_intros blind_bind_rel [OF blind_updateRound]) simp_all

lemma blind_round_POST: "status_blind rid (=) (round_POST env rid)"
  unfolding round_POST_def
  by (intro blind_catch blind_round_POST_try blind_round_POST_catch)

text \<open>
  C1, as the code has it. The round route never consults the stored status. Started in
  two worlds that differ only in the status of the round (one of them may hold
  \<open>PROCESSING\<close>), it gives the same response, issues the same calls, writes the same
  log lines and files, and leaves round stores that again differ at most in that
  status. There is no guard that rejects a trigger for a round in \<open>PROCESSING\<close>.
\<close>

theorem trigger_ignores_status:
  assumes "forget_status roundId w1 = forget_status roundId w2"
  shows "fst (round_POST env roundId w1) = fst (round_POST env roundId w2)
       \<and> issued w1 (snd (round_POST env roundId w1)) = issued w2 (snd (round_POST env roundId w2))
       \<and> logs (snd (round_POST env roundId w1)) = logs (snd (round_POST env roundId w2))
       \<and> entries (snd (round_POST env roundId w1)) = entries (snd (round_POST env roundId w2))
       \<and> forget_status roundId (snd (round_POST env roundId w1))
           = forget_status roundId (snd (round_POST env roundId w2))"
proof -
  let ?a = "round_POST env roundId w1" and ?b = "round_POST env roundId w2"
  from status_blindD [OF blind_round_POST assms, of env]
  have r: "rel_sum (=) (=) (fst ?a) (fst ?b)"
    and f: "forget_status roundId (snd ?a) = forget_status roundId (snd ?b)" .
  from r have "fst ?a = fst ?b" by (simp add: sum.rel_eq)
  moreover from assms have "effects w1 = effects w2" by (simp add: forget_status_eq_iff)
  moreover from f have "effects (snd ?a) = effects (snd ?b)" "logs (snd ?a) = logs (snd ?b)"
    "entries (snd ?a) = entries (snd ?b)"
    by (simp_all add: forget_status_eq_iff)
  ultimately show ?thesis using f by (simp add: issued_def)
qed

theorem trigger_ignores_status_witness:
  "status sample_round = PROCESSING
   \<and> rounds sample_world ''r1'' = Some sample_round
   \<and> rounds created_world ''r1'' = Some (sample_round\<lparr>status := CREATED\<rparr>)
   \<and> forget_status ''r1'' sample_world = forget_status ''r1'' created_world
   \<and> fst (round_POST sample_env ''r1'' sample_world)
       = fst (round_POST sample_env ''r1'' created_world)
   \<and> issued sample_world (snd (round_POST sample_env ''r1'' sample_world))
       = issued created_world (snd (round_POST sample_env ''r1'' created_world))"
proof -
  have eq: "forget_status ''r1'' sample_world = forget_status ''r1'' created_world"
    by (simp add: forget_status_def created_world_def sample_world_def)
  have "status sample_round = PROCESSING" "rounds sample_world ''r1'' = Some sample_round"
    "rounds created_world ''r1'' = Some (sample_round\<lparr>status := CREATED\<rparr>)"
    by (simp_all add: sample_round_def sample_world_def created_world_def)
  with eq trigger_ignores_status [OF eq, of sample_env] show ?thesis by simp
qed

text \<open>
  C1 as stated fails: a round whose status is \<open>PROCESSING\<close> is triggered, the route
  writes \<open>PROCESSING\<close> again, calls the provider and answers with the success
  response, and the round ends in \<open>COMPLETED\<close>.
\<close>

theorem processing_round_is_transcribed_again:
  "map_option status (rounds sample_world ''r1'') = Some PROCESSING
   \<and> fst (round_POST sample_env ''r1'' sample_world)
       = Inr (JsonSuccess ''r1'' sample_ontology ''Transcription completed successfully'')
   \<and> take 2 (issued sample_world (snd (round_POST sample_env ''r1'' sample_world)))
       = [StoreCall (GetRound ''r1''), StoreCall (UpdateRound ''r1'' (status_patch PROCESSING))]
   \<and> ProviderCall [7, 7] (deepgram_options ''it'')
       \<in> set (issued sample_world (snd (round_POST sample_env ''r1'' sample_world)))
   \<and> map_option status (rounds (snd (round_POST sample_env ''r1'' sample_world)) ''r1'')
       = Some COMPLETED"
  by (simp add: eval_defs)

section \<open>The statistics of the Ontology Builder\<close>

lemma keys_add_utterance:
  "map fst (add_utterance (i, u) acc) =
     (if speaker u \<in> set (map fst acc) then map fst acc else map fst acc @ [speaker u])"
proof (induction acc)
  case Nil
  show ?case by simp
next
  case (Cons p acc)
  obtain l s where p: "p = (l, s)" by (cases p)
  show ?case
  proof (cases "l = speaker u")
    case True
    with p show ?thesis by simp
  next
    case False
    with p Cons.IH show ?thesis by simp
  qed
qed

lemma keys_fold_add_utterance:
  "distinct (map fst acc) \<Longrightarrow>
   distinct (map fst (fold add_utterance xs acc))
   \<and> set (map fst (fold add_utterance xs acc)) = set (map fst acc) \<union> (speaker \<circ> snd) ` set xs"
proof (induction xs arbitrary: acc)
  case Nil
  then show ?case by simp
next
  case (Cons x xs)
  obtain i u where x: "x = (i, u)" by (cases x)
  let ?acc = "add_utterance (i, u) acc"
  from Cons.prems have d: "distinct (map fst ?acc)"
    by (simp add: keys_add_utterance)
  have s: "set (map fst ?acc) = insert (speaker u) (set (map fst acc))"
    by (auto simp: keys_add_utterance)
  from Cons.IH [OF d] s x show ?case by auto
qed

lemma keys_speakers_of:
  "distinct (map fst (speakers_of us)) \<and> set (map fst (speakers_of us)) = speaker ` set us"
proof -
  have "(speaker \<circ> snd) ` set (enumerate 0 us) = speaker ` set (map snd (enumerate 0 us))"
    by (simp only: set_map image_comp)
  then have "(speaker \<circ> snd) ` set (enumerate 0 us) = speaker ` set us" by simp
  with keys_fold_add_utterance [of "[]" "enumerate 0 us"] show ?thesis
    by (simp add: speakers_of_def)
qed

lemma length_speakers_of: "length (speakers_of us) = card (speaker ` set us)"
proof -
  from keys_speakers_of [of us]
  have "card (set (map fst (speakers_of us))) = length (map fst (speakers_of us))"
    by (intro distinct_card) simp
  with keys_speakers_of [of us] show ?thesis by simp
qed

lemma max_end_Max: "us \<noteq> [] \<Longrightarrow> max_end us = Max (end_time ` set us)"
proof (cases us)
  case Nil
  assume "us \<noteq> []"
  with Nil show ?thesis by simp
next
  case (Cons u rest)
  have "Max (set (end_time u # map end_time rest)) = fold max (map end_time rest) (end_time u)"
    by (rule Max.set_eq_fold)
  with Cons show ?thesis by (simp add: max_end_def)
qed

lemma max_end_Nil: "max_end [] = 0"
  by (simp add: max_end_def)

text \<open>
  C7. Whenever \<open>build\<close> accepts a raw transcript, which it does exactly when the
  top-level results structure is present, the statistics it returns are those of the
  utterance sequence it returns: \<open>duration_seconds\<close> is the greatest utterance end
  (0 when there is no utterance) and \<open>total_speakers\<close> is the number of distinct
  speaker labels, which are the keys of the speakers mapping. For a transcript with an
  empty utterance list \<open>build\<close> succeeds with \<open>duration_seconds = 0\<close> and
  \<open>total_speakers = 0\<close>.
\<close>

theorem build_statistics_derived:
  "(build reconstruct raw filename lang = Inr ont \<longrightarrow>
      stats_duration_seconds (statistics ont)
        = (if utterances ont = [] then 0 else Max (end_time ` set (utterances ont)))
      \<and> total_speakers (statistics ont) = card (speaker ` set (utterances ont))
      \<and> distinct (map fst (speakers ont))
      \<and> set (map fst (speakers ont)) = speaker ` set (utterances ont))
   \<and> ((\<exists>ont. build reconstruct raw filename lang = Inr ont) \<longleftrightarrow> results raw \<noteq> None)
   \<and> (results raw = Some res \<longrightarrow> utterance_data res = Some [] \<longrightarrow>
        (\<exists>ont. build reconstruct raw filename lang = Inr ont
           \<and> utterances ont = []
           \<and> stats_duration_seconds (statistics ont) = 0
           \<and> total_speakers (statistics ont) = 0))"
proof (intro conjI impI)
  assume b: "build reconstruct raw filename lang = Inr ont"
  then obtain res where res: "results raw = Some res"
    by (auto simp: build_def split: option.splits)
  define us where "us = sort_key start_time
     (case utterance_data res of Some us \<Rightarrow> us | None \<Rightarrow> reconstruct (tagged_words res))"
  from b res have ont: "utterances ont = us" "speakers ont = speakers_of us"
    "total_speakers (statistics ont) = length (speakers_of us)"
    "stats_duration_seconds (statistics ont) = max_end us"
    by (auto simp: build_def Let_def us_def)
  show "stats_duration_seconds (statistics ont)
        = (if utterances ont = [] then 0 else Max (end_time ` set (utterances ont)))"
    by (simp add: ont max_end_Nil max_end_Max)
  show "total_speakers (statistics ont) = card (speaker ` set (utterances ont))"
    by (simp add: ont length_speakers_of)
  show "distinct (map fst (speakers ont))"
    using keys_speakers_of [of us] by (simp add: ont)
  show "set (map fst (speakers ont)) = speaker ` set (utterances ont)"
    using keys_speakers_of [of us] by (simp add: ont)
next
  show "(\<exists>ont. build reconstruct raw filename lang = Inr ont) \<longleftrightarrow> results raw \<noteq> None"
    by (auto simp: build_def Let_def split: option.splits)
next
  assume "results raw = Some res" and "utterance_data res = Some []"
  then show "\<exists>ont. build reconstruct raw filename lang = Inr ont
           \<and> utterances ont = []
           \<and> stats_duration_seconds (statistics ont) = 0
           \<and> total_speakers (statistics ont) = 0"
    by (simp add: build_def Let_def speakers_of_def max_end_def)
qed

lemmas build_defs =
  build_def speakers_of_def max_end_def count_words_def overlap_transcript_def
  empty_transcript_def Let_def

theorem build_statistics_derived_witness:
  "(\<exists>ont. build (\<lambda>ws. []) overlap_transcript ''r1.webm'' ''en'' = Inr ont
      \<and> map speaker (utterances ont) = [''A'', ''B'']
      \<and> total_speakers (statistics ont) = 2
      \<and> stats_duration_seconds (statistics ont) = 9
      \<and> map (\<lambda>(l, s). (l, total_time s)) (speakers ont) = [(''A'', 5), (''B'', 5)]
      \<and> card (speaker ` set (utterances ont)) = 2
      \<and> Max (end_time ` set (utterances ont)) = 9)
   \<and> (\<exists>ont. build (\<lambda>ws. []) empty_transcript ''r1.webm'' ''en'' = Inr ont
      \<and> stats_duration_seconds (statistics ont) = 0
      \<and> total_speakers (statistics ont) = 0)"
proof -
  let ?b = "build (\<lambda>ws. []) overlap_transcript ''r1.webm'' ''en''"
  obtain ont where ont: "?b = Inr ont"
    by (simp add: build_defs)
  from ont have ev: "map speaker (utterances ont) = [''A'', ''B'']"
    "total_speakers (statistics ont) = 2" "stats_duration_seconds (statistics ont) = 9"
    "map (\<lambda>(l, s). (l, total_time s)) (speakers ont) = [(''A'', 5), (''B'', 5)]"
    by (auto simp: build_defs)
  from ev(1) have ne: "utterances ont \<noteq> []" by auto
  from build_statistics_derived [of "\<lambda>ws. []" overlap_transcript "''r1.webm''" "''en''" ont] ont ne
  have "stats_duration_seconds (statistics ont) = Max (end_time ` set (utterances ont))"
    and "total_speakers (statistics ont) = card (speaker ` set (utterances ont))"
    by simp_all
  with ev have d: "card (speaker ` set (utterances ont)) = 2"
    "Max (end_time ` set (utterances ont)) = 9" by simp_all
  have r: "results empty_transcript = Some \<lparr> utterance_data = Some [], tagged_words = [] \<rparr>"
    "utterance_data \<lparr> utterance_data = Some [], tagged_words = [] \<rparr> = Some []"
    by (simp_all add: empty_transcript_def)
  from build_statistics_derived
         [of "\<lambda>ws. []" empty_transcript "''r1.webm''" "''en''" _
             "\<lparr> utterance_data = Some [], tagged_words = [] \<rparr>"] r
  have e: "\<exists>ont. build (\<lambda>ws. []) empty_transcript ''r1.webm'' ''en'' = Inr ont
      \<and> stats_duration_seconds (statistics ont) = 0
      \<and> total_speakers (statistics ont) = 0"
    by blast
  from ont ev d
  have "\<exists>ont. ?b = Inr ont
      \<and> map speaker (utterances ont) = [''A'', ''B'']
      \<and> total_speakers (statistics ont) = 2
      \<and> stats_duration_seconds (statistics ont) = 9
      \<and> map (\<lambda>(l, s). (l, total_time s)) (speakers ont) = [(''A'', 5), (''B'', 5)]
      \<and> card (speaker ` set (utterances ont)) = 2
      \<and> Max (end_time ` set (utterances ont)) = 9"
    by (intro exI [of _ ont]) simp
  then show ?thesis using e by (rule conjI)
qed

section \<open>When the provider call yields no transcript\<close>

lemma transcribe_checked_failure:
  assumes "provider_failure env (transcribeFile env buffer (deepgram_options lang)) = Some x"
  shows "fst (transcribe_checked env buffer lang dbg w) = Inl x
       \<and> effects (snd (transcribe_checked env buffer lang dbg w))
           = effects w @ [ProviderCall buffer (deepgram_options lang)]
       \<and> rounds (snd (transcribe_checked env buffer lang dbg w)) = rounds w
       \<and> entries (snd (transcribe_checked env buffer lang dbg w)) = entries w"
  using assms
  by (auto simp: transcribe_checked_def io_bind_def call_transcribeFile_def io_then_apply
                 record_effect_def log_msg_def io_throw_def io_return_def Let_def
                 provider_failure_def lacks_results_def rejection_message_def
           split: option.splits provider_outcome.splits if_splits)

lemma round_POST_process_failure:
  assumes upd: "\<not> store_fails env (UpdateRound roundId (status_patch PROCESSING))"
    and r: "rounds w roundId = Some r"
    and rd: "\<not> fs_fails env (ReadFile (path_join env [cwd env, ''public'', audioPath]))"
    and stored: "entries w (path_join env [cwd env, ''public'', audioPath]) = Some (File buffer)"
    and key: "truthy_string (DEEPGRAM_API_KEY env)"
    and pf: "provider_failure env
               (transcribeFile env buffer (deepgram_options (round_language rnd))) = Some x"
  shows "\<exists>w'. round_POST_process env roundId rnd audioPath w = (Inl x, w')
       \<and> effects w' = effects w @
           [StoreCall (UpdateRound roundId (status_patch PROCESSING)),
            FsCall (ReadFile (path_join env [cwd env, ''public'', audioPath])),
            ProviderCall buffer (deepgram_options (round_language rnd))]
       \<and> rounds w' = (rounds w)(roundId \<mapsto> r\<lparr>status := PROCESSING\<rparr>)
       \<and> entries w' = entries w"
proof -
  let ?full = "path_join env [cwd env, ''public'', audioPath]"
  let ?p = "status_patch PROCESSING"
  let ?w1 = "w\<lparr>rounds := (rounds w)(roundId \<mapsto> apply_patch ?p r),
               effects := effects w @ [StoreCall (UpdateRound roundId ?p)]\<rparr>"
  let ?w2 = "?w1\<lparr>effects := effects ?w1 @ [FsCall (ReadFile ?full)]\<rparr>"
  let ?w3 = "?w2\<lparr>logs := logs ?w2 @ [(Info, ''Starting Deepgram transcription'')]\<rparr>"
  let ?t = "transcribe_checked env buffer (round_language rnd) False ?w3"
  have s1: "updateRound env roundId ?p w = (Inr (apply_patch ?p r), ?w1)"
    using upd r by (rule updateRound_ok)
  have s2: "fs_readFile env ?full ?w1 = (Inr buffer, ?w2)"
    by (rule fs_readFile_ok [OF rd]) (simp add: stored)
  have s3: "log_msg Info ''Starting Deepgram transcription'' ?w2 = (Inr (), ?w3)"
    by (simp add: log_msg_def)
  have s4: "require_api_key env ?w3 = (Inr (), ?w3)"
    using key by (rule require_api_key_ok)
  from transcribe_checked_failure [OF pf, of False ?w3]
  have t: "fst ?t = Inl x"
    and te: "effects (snd ?t) = effects ?w3 @ [ProviderCall buffer (deepgram_options (round_language rnd))]"
    and tr: "rounds (snd ?t) = rounds ?w3" and tn: "entries (snd ?t) = entries ?w3"
    by blast+
  from t have s5: "?t = (Inl x, snd ?t)"
    by (simp add: prod_eq_iff)
  have run: "round_POST_process env roundId rnd audioPath w = (Inl x, snd ?t)"
    unfolding round_POST_process_def Let_def
    apply (subst io_bind_Inr [where m = "updateRound env roundId ?p" and w = w, OF s1])
    apply (subst io_bind_Inr [where m = "fs_readFile env ?full" and w = ?w1, OF s2])
    apply (subst io_then_Inr
             [where m = "log_msg Info ''Starting Deepgram transcription''" and w = ?w2, OF s3])
    apply (subst io_then_Inr [where m = "require_api_key env" and w = ?w3, OF s4])
    apply (subst io_bind_Inl
             [where m = "transcribe_checked env buffer (round_language rnd) False"
                and w = ?w3, OF s5])
    apply (rule refl)
    done
  have "effects (snd ?t) = effects w @
           [StoreCall (UpdateRound roundId ?p), FsCall (ReadFile ?full),
            ProviderCall buffer (deepgram_options (round_language rnd))]"
    using te by simp
  moreover have "rounds (snd ?t) = (rounds w)(roundId \<mapsto> r\<lparr>status := PROCESSING\<rparr>)"
    using tr by (simp add: apply_status_patch)
  moreover have "entries (snd ?t) = entries w" using tn by simp
  ultimately show ?thesis using run by blast
qed

text \<open>
  The run of the round route up to a provider call that yields no transcript: the round
  is stored, its audio file is stored and readable, the store accepts the read and the
  \<open>PROCESSING\<close> update, and an API key is configured.
\<close>

lemma round_POST_try_failure:
  assumes "\<not> store_fails env (GetRound roundId)"
    and "rounds w roundId = Some r"
    and "audioFileExists env roundId w = Some audioPath"
    and "\<not> store_fails env (UpdateRound roundId (status_patch PROCESSING))"
    and "\<not> fs_fails env (ReadFile (path_join env [cwd env, ''public'', audioPath]))"
    and "entries w (path_join env [cwd env, ''public'', audioPath]) = Some (File buffer)"
    and "truthy_string (DEEPGRAM_API_KEY env)"
    and "provider_failure env
           (transcribeFile env buffer (deepgram_options (round_language r))) = Some x"
  shows "\<exists>w2. round_POST_try env roundId w = (Inl x, w2)
       \<and> effects w2 = effects w
           @ calls_until_provider env roundId audioPath buffer (round_language r)
       \<and> rounds w2 = (rounds w)(roundId \<mapsto> r\<lparr>status := PROCESSING\<rparr>)
       \<and> entries w2 = entries w"
proof -
  let ?w0 = "w\<lparr>effects := effects w @ [StoreCall (GetRound roundId)]\<rparr>"
  let ?w1 = "?w0\<lparr>logs := logs ?w0 @ [(Info, ''Found audio file'')]\<rparr>"
  have g: "getRound env roundId w = (Inr (Some r), ?w0)"
    using getRound_ok [OF assms(1), of w] assms(2) by simp
  have "rounds ?w1 roundId = Some r"
    and "entries ?w1 (path_join env [cwd env, ''public'', audioPath]) = Some (File buffer)"
    using assms(2,6) by simp_all
  from round_POST_process_failure [OF assms(4) this(1) assms(5) this(2) assms(7,8)]
  obtain w2 where
    p: "round_POST_process env roundId r audioPath ?w1 = (Inl x, w2)" and
    e2: "effects w2 = effects ?w1 @
           [StoreCall (UpdateRound roundId (status_patch PROCESSING)),
            FsCall (ReadFile (path_join env [cwd env, ''public'', audioPath])),
            ProviderCall buffer (deepgram_options (round_language r))]" and
    r2: "rounds w2 = (rounds ?w1)(roundId \<mapsto> r\<lparr>status := PROCESSING\<rparr>)" and
    n2: "entries w2 = entries ?w1"
    by blast
  have f: "round_POST_found env roundId r ?w0 = (Inl x, w2)"
    using assms(3) p by (simp add: round_POST_found_def io_then_apply log_msg_def)
  have t: "round_POST_try env roundId w = (Inl x, w2)"
    unfolding round_POST_try_def
    by (subst io_bind_Inr [where m = "getRound env roundId" and w = w, OF g]) (simp add: f)
  from t e2 r2 n2 show ?thesis by (simp add: calls_until_provider_def)
qed

text \<open>What the \<open>catch\<close> block of the round route leaves behind.\<close>

lemma round_POST_caught:
  assumes t: "round_POST_try env roundId w = (Inl (Throws e), w2)"
    and r2: "rounds w2 = (rounds w)(roundId \<mapsto> r\<lparr>status := PROCESSING\<rparr>)"
  shows "\<exists>w'. round_POST env roundId w = (Inr (failure_response e), w')
       \<and> effects w' = effects w2 @ [StoreCall (UpdateRound roundId (status_patch ERROR))]
       \<and> entries w' = entries w2
       \<and> rounds w' = (rounds w)(roundId \<mapsto>
            r\<lparr>status := if store_fails env (UpdateRound roundId (status_patch ERROR))
                         then PROCESSING else ERROR\<rparr>)"
proof -
  let ?w' = "snd (round_POST_catch env roundId e w2)"
  have acc: "error_update_accepted env roundId w2
               \<longleftrightarrow> \<not> store_fails env (UpdateRound roundId (status_patch ERROR))"
    by (simp add: error_update_accepted_def r2)
  have post: "round_POST env roundId w = (Inr (failure_response e), ?w')"
    by (simp add: round_POST_def io_catch_def t round_POST_catch_eq)
  have "effects ?w' = effects w2 @ [StoreCall (UpdateRound roundId (status_patch ERROR))]"
    by (simp add: round_POST_catch_eq)
  moreover have "entries ?w' = entries w2"
    by (simp add: round_POST_catch_eq)
  moreover have "rounds ?w' = (rounds w)(roundId \<mapsto>
            r\<lparr>status := if store_fails env (UpdateRound roundId (status_patch ERROR))
                         then PROCESSING else ERROR\<rparr>)"
    by (simp add: round_POST_catch_eq acc r2 apply_status_patch)
  ultimately show ?thesis using post by blast
qed

text \<open>
  C4. A round with a stored audio file is triggered on the round route, the store and
  the file read work, an API key is configured, and the provider resolves without an
  error to a reply that is missing, falsy or without a usable \<open>results\<close> member. Then
  the route throws before it calls the builder or writes a file: its calls are the read
  of the round, the \<open>PROCESSING\<close> update, the file read, the provider call and one
  last update whose patch names the status \<open>ERROR\<close> and nothing else. It answers 500,
  the files are as before, and the stored round is the round as it was with its status
  set to \<open>ERROR\<close>, so its audio reference is unchanged.
\<close>

theorem missing_results_rejected:
  assumes "\<not> store_fails env (GetRound roundId)"
    and "rounds w roundId = Some r"
    and "audioFileExists env roundId w = Some audioPath"
    and "\<not> store_fails env (UpdateRound roundId (status_patch PROCESSING))"
    and "\<not> fs_fails env (ReadFile (path_join env [cwd env, ''public'', audioPath]))"
    and "entries w (path_join env [cwd env, ''public'', audioPath]) = Some (File buffer)"
    and "truthy_string (DEEPGRAM_API_KEY env)"
    and "transcribeFile env buffer (deepgram_options (round_language r)) = Resolves result None"
    and "lacks_results result"
    and "\<not> store_fails env (UpdateRound roundId (status_patch ERROR))"
  shows "\<exists>w'. round_POST env roundId w
               = (Inr (JsonError 500 (rejection_message result)
                         (Some (stack_trace env (rejection_message result)))), w')
       \<and> issued w w' =
           [StoreCall (GetRound roundId),
            StoreCall (UpdateRound roundId (status_patch PROCESSING)),
            FsCall (ReadFile (path_join env [cwd env, ''public'', audioPath])),
            ProviderCall buffer (deepgram_options (round_language r)),
            StoreCall (UpdateRound roundId
              \<lparr> set_status = Some ERROR, set_audio_file = None, set_transcription_file = None,
                set_duration_seconds = None, set_speaker_count = None \<rparr>)]
       \<and> entries w' = entries w
       \<and> rounds w' = (rounds w)(roundId \<mapsto> r\<lparr>status := ERROR\<rparr>)
       \<and> map_option audio_file (rounds w' roundId) = Some (audio_file r)"
proof -
  let ?e = "new_Error env (rejection_message result)"
  from assms(8,9)
  have pf: "provider_failure env
              (transcribeFile env buffer (deepgram_options (round_language r))) = Some (Throws ?e)"
    by (simp add: provider_failure_def)
  from round_POST_try_failure [OF assms(1-7) pf] obtain w2 where
    t: "round_POST_try env roundId w = (Inl (Throws ?e), w2)" and
    e2: "effects w2 = effects w
           @ calls_until_provider env roundId audioPath buffer (round_language r)" and
    r2: "rounds w2 = (rounds w)(roundId \<mapsto> r\<lparr>status := PROCESSING\<rparr>)" and
    n2: "entries w2 = entries w"
    by blast
  from round_POST_caught [OF t r2] assms(10) obtain w' where
    post: "round_POST env roundId w = (Inr (failure_response ?e), w')" and
    e': "effects w' = effects w2 @ [StoreCall (UpdateRound roundId (status_patch ERROR))]" and
    n': "entries w' = entries w2" and
    r': "rounds w' = (rounds w)(roundId \<mapsto> r\<lparr>status := ERROR\<rparr>)"
    by auto
  have resp: "failure_response ?e = JsonError 500 (rejection_message result)
                         (Some (stack_trace env (rejection_message result)))"
    by (simp add: failure_response_def new_Error_def)
  have eff: "issued w w' =
           [StoreCall (GetRound roundId),
            StoreCall (UpdateRound roundId (status_patch PROCESSING)),
            FsCall (ReadFile (path_join env [cwd env, ''public'', audioPath])),
            ProviderCall buffer (deepgram_options (round_language r)),
            StoreCall (UpdateRound roundId
              \<lparr> set_status = Some ERROR, set_audio_file = None, set_transcription_file = None,
                set_duration_seconds = None, set_speaker_count = None \<rparr>)]"
    by (simp add: issued_def e' e2 calls_until_provider_def status_patch_def no_patch_def)
  from r' have aud: "map_option audio_file (rounds w' roundId) = Some (audio_file r)" by simp
  from post resp eff n' n2 r' aud show ?thesis by metis
qed

theorem missing_results_rejected_witness:
  "lacks_results (Some (JObj []))
   \<and> fst (round_POST no_results_env ''r1'' sample_world)
       = Inr (JsonError 500 ''Invalid response from Deepgram API''
                (Some ''Error: Invalid response from Deepgram API at POST''))
   \<and> map_option status (rounds (snd (round_POST no_results_env ''r1'' sample_world)) ''r1'')
       = Some ERROR
   \<and> map_option audio_file (rounds (snd (round_POST no_results_env ''r1'' sample_world)) ''r1'')
       = Some (Some ''/audio/r1.webm'')
   \<and> entries (snd (round_POST no_results_env ''r1'' sample_world)) = entries sample_world"
proof -
  let ?env = no_results_env
  have h1: "\<not> store_fails ?env (GetRound ''r1'')"
    by (simp add: no_results_env_def sample_env_def)
  have h2: "rounds sample_world ''r1'' = Some sample_round" by (simp add: sample_world_def)
  have h3: "audioFileExists ?env ''r1'' sample_world = Some ''/audio/r1.webm''"
    by (simp add: eval_defs no_results_env_def)
  have h4: "\<not> store_fails ?env (UpdateRound ''r1'' (status_patch PROCESSING))"
    by (simp add: no_results_env_def sample_env_def)
  have pj: "path_join ?env [cwd ?env, ''public'', ''/audio/r1.webm''] = ''/app/public/audio/r1.webm''"
    by (simp add: eval_defs no_results_env_def)
  have h5: "\<not> fs_fails ?env (ReadFile (path_join ?env [cwd ?env, ''public'', ''/audio/r1.webm'']))"
    by (simp add: no_results_env_def sample_env_def)
  have h6: "entries sample_world (path_join ?env [cwd ?env, ''public'', ''/audio/r1.webm''])
              = Some (File [7, 7])"
    unfolding pj by (simp add: sample_world_def)
  have h7: "truthy_string (DEEPGRAM_API_KEY ?env)"
    by (simp add: no_results_env_def sample_env_def truthy_string_def)
  have h8: "transcribeFile ?env [7, 7] (deepgram_options (round_language sample_round))
              = Resolves (Some (JObj [])) None"
    by (simp add: no_results_env_def sample_env_def)
  have h9: "lacks_results (Some (JObj []))"
    by (simp add: lacks_results_def has_results_def)
  have h10: "\<not> store_fails ?env (UpdateRound ''r1'' (status_patch ERROR))"
    by (simp add: no_results_env_def sample_env_def)
  from missing_results_rejected [OF h1 h2 h3 h4 h5 h6 h7 h8 h9 h10]
  obtain w' where
    a: "round_POST ?env ''r1'' sample_world
          = (Inr (JsonError 500 (rejection_message (Some (JObj [])))
                         (Some (stack_trace ?env (rejection_message (Some (JObj [])))))), w')"
    and b: "entries w' = entries sample_world"
    and c: "rounds w' = (rounds sample_world)(''r1'' \<mapsto> sample_round\<lparr>status := ERROR\<rparr>)"
    by blast
  have m: "rejection_message (Some (JObj [])) = ''Invalid response from Deepgram API''"
    by (simp add: rejection_message_def)
  have s: "stack_trace ?env ''Invalid response from Deepgram API''
             = ''Error: Invalid response from Deepgram API at POST''"
    by (simp add: no_results_env_def sample_env_def)
  from a b c h9 show ?thesis by (simp add: m s sample_round_def)
qed

text \<open>
  C5, as the code of the round-specific route
  (\<open>POST /api/rounds/{roundId}/transcribe\<close>) has it. This route exports
  \<open>maxDuration = 300\<close> (seconds) for the hosting runtime and sets no deadline of its
  own on the provider call. Let its run reach the provider call (the round and its audio file are stored, the store and the
  file read work, an API key is configured). If the call rejects, or resolves with an
  error member, which is how a timeout raised by the client library arrives, the route
  answers 500 after one \<open>ERROR\<close> update, and the round is in \<open>ERROR\<close> when the store
  accepts that update and stays in \<open>PROCESSING\<close> when it does not. If the call never
  settles, the handler stays suspended at the \<open>await\<close>: it gives no response, issues no
  call after the provider call, and the round stays in \<open>PROCESSING\<close>.
\<close>

theorem provider_call_without_deadline:
  assumes "\<not> store_fails env (GetRound roundId)"
    and "rounds w roundId = Some r"
    and "audioFileExists env roundId w = Some audioPath"
    and "\<not> store_fails env (UpdateRound roundId (status_patch PROCESSING))"
    and "\<not> fs_fails env (ReadFile (path_join env [cwd env, ''public'', audioPath]))"
    and "entries w (path_join env [cwd env, ''public'', audioPath]) = Some (File buffer)"
    and "truthy_string (DEEPGRAM_API_KEY env)"
  shows "maxDuration = 300
       \<and> (transcribeFile env buffer (deepgram_options (round_language r)) = NeverSettles \<longrightarrow>
            (\<exists>w'. round_POST env roundId w = (Inl Unsettled, w')
               \<and> issued w w'
                   = calls_until_provider env roundId audioPath buffer (round_language r)
               \<and> rounds w' = (rounds w)(roundId \<mapsto> r\<lparr>status := PROCESSING\<rparr>)))
       \<and> (provider_failure env
             (transcribeFile env buffer (deepgram_options (round_language r))) = Some (Throws e)
           \<longrightarrow>
            (\<exists>w'. round_POST env roundId w = (Inr (failure_response e), w')
               \<and> issued w w'
                   = calls_until_provider env roundId audioPath buffer (round_language r)
                     @ [StoreCall (UpdateRound roundId (status_patch ERROR))]
               \<and> rounds w' = (rounds w)(roundId \<mapsto>
                    r\<lparr>status := if store_fails env (UpdateRound roundId (status_patch ERROR))
                                 then PROCESSING else ERROR\<rparr>)))"
proof (intro conjI impI)
  show "maxDuration = 300" by (simp add: maxDuration_def)
next
  assume "transcribeFile env buffer (deepgram_options (round_language r)) = NeverSettles"
  then have pf: "provider_failure env
              (transcribeFile env buffer (deepgram_options (round_language r))) = Some Unsettled"
    by (simp add: provider_failure_def)
  from round_POST_try_failure [OF assms pf] obtain w2 where
    t: "round_POST_try env roundId w = (Inl Unsettled, w2)" and
    e2: "effects w2 = effects w
           @ calls_until_provider env roundId audioPath buffer (round_language r)" and
    r2: "rounds w2 = (rounds w)(roundId \<mapsto> r\<lparr>status := PROCESSING\<rparr>)"
    by blast
  from t have "round_POST env roundId w = (Inl Unsettled, w2)"
    by (simp add: round_POST_def io_catch_def)
  with e2 r2 show "\<exists>w'. round_POST env roundId w = (Inl Unsettled, w')
               \<and> issued w w'
                   = calls_until_provider env roundId audioPath buffer (round_language r)
               \<and> rounds w' = (rounds w)(roundId \<mapsto> r\<lparr>status := PROCESSING\<rparr>)"
    by (simp add: issued_def)
next
  assume pf: "provider_failure env
             (transcribeFile env buffer (deepgram_options (round_language r))) = Some (Throws e)"
  from round_POST_try_failure [OF assms pf] obtain w2 where
    t: "round_POST_try env roundId w = (Inl (Throws e), w2)" and
    e2: "effects w2 = effects w
           @ calls_until_provider env roundId audioPath buffer (round_language r)" and
    r2: "rounds w2 = (rounds w)(roundId \<mapsto> r\<lparr>status := PROCESSING\<rparr>)"
    by blast
  from round_POST_caught [OF t r2] obtain w' where
    post: "round_POST env roundId w = (Inr (failure_response e), w')" and
    e': "effects w' = effects w2 @ [StoreCall (UpdateRound roundId (status_patch ERROR))]" and
    r': "rounds w' = (rounds w)(roundId \<mapsto>
            r\<lparr>status := if store_fails env (UpdateRound roundId (status_patch ERROR))
                         then PROCESSING else ERROR\<rparr>)"
    by blast
  from e' e2 have "issued w w'
                   = calls_until_provider env roundId audioPath buffer (round_language r)
                     @ [StoreCall (UpdateRound roundId (status_patch ERROR))]"
    by (simp add: issued_def)
  with post r' show "\<exists>w'. round_POST env roundId w = (Inr (failure_response e), w')
               \<and> issued w w'
                   = calls_until_provider env roundId audioPath buffer (round_language r)
                     @ [StoreCall (UpdateRound roundId (status_patch ERROR))]
               \<and> rounds w' = (rounds w)(roundId \<mapsto>
                    r\<lparr>status := if store_fails env (UpdateRound roundId (status_patch ERROR))
                                 then PROCESSING else ERROR\<rparr>)"
    by blast
qed

theorem provider_call_without_deadline_witness:
  "fst (round_POST rejecting_env ''r1'' created_world) = Inr (failure_response timeout_error)
   \<and> map_option status (rounds (snd (round_POST rejecting_env ''r1'' created_world)) ''r1'')
       = Some ERROR
   \<and> fst (round_POST hanging_env ''r1'' sample_world) = Inl Unsettled
   \<and> map_option status (rounds (snd (round_POST hanging_env ''r1'' sample_world)) ''r1'')
       = Some PROCESSING"
proof -
  let ?env = rejecting_env
  have h1: "\<not> store_fails ?env (GetRound ''r1'')"
    by (simp add: rejecting_env_def sample_env_def)
  have h2: "rounds created_world ''r1'' = Some (sample_round\<lparr>status := CREATED\<rparr>)"
    by (simp add: created_world_def)
  have h3: "audioFileExists ?env ''r1'' created_world = Some ''/audio/r1.webm''"
    by (simp add: eval_defs rejecting_env_def created_world_def)
  have h4: "\<not> store_fails ?env (UpdateRound ''r1'' (status_patch PROCESSING))"
    by (simp add: rejecting_env_def sample_env_def)
  have pj: "path_join ?env [cwd ?env, ''public'', ''/audio/r1.webm''] = ''/app/public/audio/r1.webm''"
    by (simp add: eval_defs rejecting_env_def)
  have h5: "\<not> fs_fails ?env (ReadFile (path_join ?env [cwd ?env, ''public'', ''/audio/r1.webm'']))"
    by (simp add: rejecting_env_def sample_env_def)
  have h6: "entries created_world (path_join ?env [cwd ?env, ''public'', ''/audio/r1.webm''])
              = Some (File [7, 7])"
    unfolding pj by (simp add: created_world_def sample_world_def)
  have h7: "truthy_string (DEEPGRAM_API_KEY ?env)"
    by (simp add: rejecting_env_def sample_env_def truthy_string_def)
  have pf: "provider_failure ?env (transcribeFile ?env [7, 7]
              (deepgram_options (round_language (sample_round\<lparr>status := CREATED\<rparr>))))
            = Some (Throws timeout_error)"
    by (simp add: rejecting_env_def sample_env_def provider_failure_def)
  have ok: "\<not> store_fails ?env (UpdateRound ''r1'' (status_patch ERROR))"
    by (simp add: rejecting_env_def sample_env_def)
  from provider_call_without_deadline [OF h1 h2 h3 h4 h5 h6 h7, of timeout_error] pf ok
  obtain w' where
    a: "round_POST ?env ''r1'' created_world = (Inr (failure_response timeout_error), w')"
    and b: "rounds w' = (rounds created_world)(''r1'' \<mapsto>
              sample_round\<lparr>status := CREATED, status := ERROR\<rparr>)"
    by auto
  have g1: "\<not> store_fails hanging_env (GetRound ''r1'')"
    by (simp add: hanging_env_def sample_env_def)
  have g2: "rounds sample_world ''r1'' = Some sample_round" by (simp add: sample_world_def)
  have g3: "audioFileExists hanging_env ''r1'' sample_world = Some ''/audio/r1.webm''"
    by (simp add: eval_defs hanging_env_def)
  have g4: "\<not> store_fails hanging_env (UpdateRound ''r1'' (status_patch PROCESSING))"
    by (simp add: hanging_env_def sample_env_def)
  have qj: "path_join hanging_env [cwd hanging_env, ''public'', ''/audio/r1.webm'']
              = ''/app/public/audio/r1.webm''"
    by (simp add: eval_defs hanging_env_def)
  have g5: "\<not> fs_fails hanging_env
              (ReadFile (path_join hanging_env [cwd hanging_env, ''public'', ''/audio/r1.webm'']))"
    by (simp add: hanging_env_def sample_env_def)
  have g6: "entries sample_world
              (path_join hanging_env [cwd hanging_env, ''public'', ''/audio/r1.webm''])
              = Some (File [7, 7])"
    unfolding qj by (simp add: sample_world_def)
  have g7: "truthy_string (DEEPGRAM_API_KEY hanging_env)"
    by (simp add: hanging_env_def sample_env_def truthy_string_def)
  have never: "transcribeFile hanging_env [7, 7] (deepgram_options (round_language sample_round))
                 = NeverSettles"
    by (simp add: hanging_env_def sample_env_def)
  from provider_call_without_deadline [OF g1 g2 g3 g4 g5 g6 g7, of timeout_error] never
  obtain w'' where
    c: "round_POST hanging_env ''r1'' sample_world = (Inl Unsettled, w'')"
    and d: "rounds w'' = (rounds sample_world)(''r1'' \<mapsto> sample_round\<lparr>status := PROCESSING\<rparr>)"
    by auto
  from a b c d show ?thesis by simp
qed

text \<open>
  C5 as stated fails on the round-specific route: the provider call never settles, so
  every deadline passes; the handler gives no response, its last call is the provider call, it never attempts an
  \<open>ERROR\<close> update, and the round it moved from \<open>CREATED\<close> to \<open>PROCESSING\<close> stays
  there.
\<close>

theorem round_left_in_processing:
  "map_option status (rounds created_world ''r1'') = Some CREATED
   \<and> fst (round_POST hanging_env ''r1'' created_world) = Inl Unsettled
   \<and> issued created_world (snd (round_POST hanging_env ''r1'' created_world))
       = [StoreCall (GetRound ''r1''),
          StoreCall (UpdateRound ''r1'' (status_patch PROCESSING)),
          FsCall (ReadFile ''/app/public/audio/r1.webm''),
          ProviderCall [7, 7] (deepgram_options ''it'')]
   \<and> filter is_error_update
        (issued created_world (snd (round_POST hanging_env ''r1'' created_world))) = []
   \<and> map_option status (rounds (snd (round_POST hanging_env ''r1'' created_world)) ''r1'')
       = Some PROCESSING"
  by (simp add: eval_defs hanging_env_def created_world_def)

end
